theory Spec2Isabelle
  imports Main "HOL-Library.Sublist"
begin

section \<open>Python values and the operations the client applies to them\<close>

text \<open>
  The client exchanges JSON-RPC messages that \<^verbatim>\<open>json.loads\<close> turns into Python values.
  A JSON object is a Python \<^verbatim>\<open>dict\<close>, kept here as an association list in insertion order.
  Numbers are the integers; non-integral numbers do not occur in the messages of this protocol
  and are not represented.
\<close>

datatype json =
    JNull
  | JBool bool
  | JInt int
  | JStr string
  | JArr "json list"
  | JObj "(string \<times> json) list"

text \<open>The exceptions the modelled code can meet.\<close>

datatype py_error =
    KeyError
  | TypeError
  | AttributeError
  | ValueError
  | OSError

text \<open>A Python \<^verbatim>\<open>str\<close> is kept as a list of characters; text outside the 256 characters
  of the type is kept as the bytes of its UTF-8 form, on which \<^verbatim>\<open>p in s\<close> is the same test
  as on the code points.  What the model takes from the Python runtime without
  re-implementing it: \<^verbatim>\<open>str(v)\<close> of a value that is not a string,
  \<^verbatim>\<open>json.dumps(v, indent=2)\<close>, \<^verbatim>\<open>json.loads(s)\<close> (\<open>None\<close> where it raises),
  \<^verbatim>\<open>str(e)\<close> of a caught exception, and \<^verbatim>\<open>s.lower()\<close> of a string, which lowercases
  every cased character, not only the ASCII letters.\<close>

record py_runtime =
  repr :: "json \<Rightarrow> string"
  dumps_indent2 :: "json \<Rightarrow> string"
  loads :: "string \<Rightarrow> json option"
  exc_text :: "py_error \<Rightarrow> string"
  str_lower :: "string \<Rightarrow> string"

text \<open>\<^verbatim>\<open>f"{v}"\<close>: a string is inserted as it is, another value through \<^verbatim>\<open>str\<close>.\<close>

fun py_str :: "py_runtime \<Rightarrow> json \<Rightarrow> string" where
  "py_str rt (JStr s) = s"
| "py_str rt v = repr rt v"

text \<open>Truth value of a Python object, as \<^verbatim>\<open>if x\<close> and \<^verbatim>\<open>x and y\<close> test it.\<close>

fun py_truthy :: "json \<Rightarrow> bool" where
  "py_truthy JNull = False"
| "py_truthy (JBool b) = b"
| "py_truthy (JInt i) = (i \<noteq> 0)"
| "py_truthy (JStr s) = (s \<noteq> [])"
| "py_truthy (JArr xs) = (xs \<noteq> [])"
| "py_truthy (JObj kvs) = (kvs \<noteq> [])"

text \<open>\<^verbatim>\<open>k in d\<close>, \<^verbatim>\<open>d.get(k)\<close> (a missing key gives \<^verbatim>\<open>None\<close>, which is also what JSON
  \<^verbatim>\<open>null\<close> decodes to) and \<^verbatim>\<open>d.get(k, default)\<close> on a dict.\<close>

definition has_key :: "('k \<times> 'v) list \<Rightarrow> 'k \<Rightarrow> bool" where
  "has_key d k = (map_of d k \<noteq> None)"

definition py_get :: "(string \<times> json) list \<Rightarrow> string \<Rightarrow> json" where
  "py_get d k = (case map_of d k of None \<Rightarrow> JNull | Some v \<Rightarrow> v)"

definition py_get_default :: "(string \<times> json) list \<Rightarrow> string \<Rightarrow> json \<Rightarrow> json" where
  "py_get_default d k dflt = (case map_of d k of None \<Rightarrow> dflt | Some v \<Rightarrow> v)"

text \<open>\<^verbatim>\<open>d[k] = v\<close>: an existing key keeps its position, a new key goes to the end.
  \<^verbatim>\<open>d.update(e)\<close> stores the items of \<open>e\<close> in their order.\<close>

fun dict_set :: "('k \<times> 'v) list \<Rightarrow> 'k \<Rightarrow> 'v \<Rightarrow> ('k \<times> 'v) list" where
  "dict_set [] k v = [(k, v)]"
| "dict_set ((k', v') # d) k v =
     (if k' = k then (k', v) # d else (k', v') # dict_set d k v)"

definition dict_update :: "('k \<times> 'v) list \<Rightarrow> ('k \<times> 'v) list \<Rightarrow> ('k \<times> 'v) list" where
  "dict_update d e = fold (\<lambda>(k, v) acc. dict_set acc k v) e d"

text \<open>The key under which a value is filed in a dict.  \<^verbatim>\<open>None\<close>, booleans, integers and
  strings are hashable; as keys \<^verbatim>\<open>True\<close> and \<^verbatim>\<open>1\<close> are the same key, and so are
  \<^verbatim>\<open>False\<close> and \<^verbatim>\<open>0\<close>.  A list or a dict is unhashable (\<^verbatim>\<open>TypeError\<close>).\<close>

datatype pykey = KNone | KInt int | KStr string

fun key_of :: "json \<Rightarrow> py_error + pykey" where
  "key_of JNull = Inr KNone"
| "key_of (JBool b) = Inr (KInt (if b then 1 else 0))"
| "key_of (JInt i) = Inr (KInt i)"
| "key_of (JStr s) = Inr (KStr s)"
| "key_of (JArr xs) = Inl TypeError"
| "key_of (JObj kvs) = Inl TypeError"

text \<open>\<^verbatim>\<open>p in s\<close> on strings: \<open>p\<close> occurs in \<open>s\<close> as a contiguous piece.\<close>

fun str_contains :: "string \<Rightarrow> string \<Rightarrow> bool" where
  "str_contains [] p = (p = [])"
| "str_contains (c # s) p = (prefix p (c # s) \<or> str_contains s p)"

text \<open>\<^verbatim>\<open>for x in v\<close>: a list gives its items, a dict its keys, a string its characters;
  anything else is not iterable.\<close>

fun py_iter :: "json \<Rightarrow> py_error + json list" where
  "py_iter (JArr xs) = Inr xs"
| "py_iter (JObj kvs) = Inr (map (\<lambda>(k, v). JStr k) kvs)"
| "py_iter (JStr s) = Inr (map (\<lambda>c. JStr [c]) s)"
| "py_iter v = Inl TypeError"

text \<open>\<^verbatim>\<open>"content" in v\<close> for a string on the left: key test on a dict, membership on a
  list, substring test on a string, \<^verbatim>\<open>TypeError\<close> otherwise.\<close>

fun py_in :: "string \<Rightarrow> json \<Rightarrow> py_error + bool" where
  "py_in k (JObj kvs) = Inr (has_key kvs k)"
| "py_in k (JArr xs) = Inr (JStr k \<in> set xs)"
| "py_in k (JStr s) = Inr (str_contains s k)"
| "py_in k v = Inl TypeError"

text \<open>\<^verbatim>\<open>v["content"]\<close>: defined on a dict that has the key.\<close>

fun py_getitem :: "json \<Rightarrow> string \<Rightarrow> py_error + json" where
  "py_getitem (JObj kvs) k = (case map_of kvs k of None \<Rightarrow> Inl KeyError | Some v \<Rightarrow> Inr v)"
| "py_getitem v k = Inl TypeError"

text \<open>\<^verbatim>\<open>"\n".join(xs)\<close>: every item has to be a string.\<close>

fun py_join :: "json list \<Rightarrow> py_error + string" where
  "py_join [] = Inr []"
| "py_join [JStr s] = Inr s"
| "py_join (JStr s # x # xs) =
     (case py_join (x # xs) of Inl e \<Rightarrow> Inl e | Inr r \<Rightarrow> Inr (s @ [CHR 0x0A] @ r))"
| "py_join (v # xs) = Inl TypeError"

section \<open>The subprocess of one server\<close>

text \<open>
  A line read from the subprocess is either text that \<^verbatim>\<open>json.loads\<close> rejects or a JSON
  value.  The subprocess is the sequence of lines it will still print before its stdout
  closes (\<^verbatim>\<open>readline\<close> then returns the empty string), the messages written to its stdin
  so far, each recorded as the value that was serialised, whether writing to its stdin fails,
  whether it exits within the grace period after \<^verbatim>\<open>terminate\<close>, and the signals it was sent.
  A subprocess that prints nothing and keeps its stdout open blocks \<^verbatim>\<open>readline\<close> for ever;
  such a run returns nothing and has no finite sequence of lines here.
\<close>

datatype line = Garbled | Json json

datatype signal = SIGTERM | SIGKILL

record subprocess =
  stdout_lines :: "line list"
  stdin_written :: "json list"
  stdin_broken :: bool
  exits_on_terminate :: bool
  signals :: "signal list"

text \<open>\<^verbatim>\<open>stdin.write(json.dumps(msg) + "\n"); stdin.flush()\<close>\<close>

definition proc_write :: "subprocess \<Rightarrow> json \<Rightarrow> py_error + subprocess" where
  "proc_write p msg =
     (if stdin_broken p then Inl OSError
      else Inr (p\<lparr>stdin_written := stdin_written p @ [msg]\<rparr>))"

section \<open>Wire exchange of one connection\<close>

text \<open>The reply \<^verbatim>\<open>_handle_server_request\<close> builds for a request of the server.\<close>

definition server_request_reply :: "py_runtime \<Rightarrow> (string \<times> json) list \<Rightarrow> json" where
  "server_request_reply rt request =
     (let method = py_get request ''method'';
          request_id = py_get request ''id''
      in if method = JStr ''roots/list''
         then JObj [(''jsonrpc'', JStr ''2.0''),
                    (''id'', request_id),
                    (''result'', JObj [(''roots'', JArr [])])]
         else JObj [(''jsonrpc'', JStr ''2.0''),
                    (''id'', request_id),
                    (''error'', JObj [(''code'', JInt (- 32601)),
                                      (''message'', JStr (''Method not found: '' @ py_str rt method))])])"

text \<open>\<^verbatim>\<open>_handle_server_request\<close>: the reply is written; a failing write is logged and
  swallowed.\<close>

definition handle_server_request ::
  "py_runtime \<Rightarrow> (string \<times> json) list \<Rightarrow> subprocess \<Rightarrow> subprocess" where
  "handle_server_request rt request p =
     (case proc_write p (server_request_reply rt request) of
        Inl e \<Rightarrow> p
      | Inr p' \<Rightarrow> p')"

text \<open>The test \<^verbatim>\<open>response.get("method") and "id" in response\<close>.\<close>

definition is_server_request :: "(string \<times> json) list \<Rightarrow> bool" where
  "is_server_request response = (py_truthy (py_get response ''method'') \<and> has_key response ''id'')"

text \<open>
  The \<^verbatim>\<open>while True\<close> loop of \<^verbatim>\<open>_send_request\<close>, over the lines still to come.  The end of
  the stream, a line that does not parse and a parsed value without \<^verbatim>\<open>.get\<close> (not a
  dict: \<^verbatim>\<open>AttributeError\<close>, caught by the enclosing handler) all end the wait with
  \<^verbatim>\<open>None\<close>.  Request ids of this client are \<^verbatim>\<open>str(uuid.uuid4())\<close>, for which \<^verbatim>\<open>==\<close>
  is equality of the JSON values.
\<close>

fun wait_response ::
  "py_runtime \<Rightarrow> json \<Rightarrow> line list \<Rightarrow> subprocess \<Rightarrow> (string \<times> json) list option \<times> subprocess" where
  "wait_response rt request_id [] p = (None, p\<lparr>stdout_lines := []\<rparr>)"
| "wait_response rt request_id (Garbled # ls) p = (None, p\<lparr>stdout_lines := ls\<rparr>)"
| "wait_response rt request_id (Json (JObj response) # ls) p =
     (if is_server_request response
      then wait_response rt request_id ls (handle_server_request rt response p)
      else if py_get response ''id'' = request_id
      then (Some response, p\<lparr>stdout_lines := ls\<rparr>)
      else wait_response rt request_id ls p)"
| "wait_response rt request_id (Json v # ls) p = (None, p\<lparr>stdout_lines := ls\<rparr>)"

text \<open>\<^verbatim>\<open>_send_request\<close>, on the \<^verbatim>\<open>self.process\<close> of the connection.\<close>

definition send_request ::
  "py_runtime \<Rightarrow> (string \<times> json) list \<Rightarrow> subprocess option
     \<Rightarrow> (string \<times> json) list option \<times> subprocess option" where
  "send_request rt request proc =
     (case proc of
        None \<Rightarrow> (None, None)
      | Some p \<Rightarrow>
          (case proc_write p (JObj request) of
             Inl e \<Rightarrow> (None, Some p)
           | Inr p' \<Rightarrow>
               (let (response, p'') = wait_response rt (py_get request ''id'') (stdout_lines p') p'
                in (response, Some p''))))"

text \<open>\<^verbatim>\<open>_send_notification\<close>: written, nothing awaited, a failing write swallowed.\<close>

definition send_notification :: "json \<Rightarrow> subprocess option \<Rightarrow> subprocess option" where
  "send_notification notification proc =
     (case proc of
        None \<Rightarrow> None
      | Some p \<Rightarrow> (case proc_write p notification of Inl e \<Rightarrow> Some p | Inr p' \<Rightarrow> Some p'))"

section \<open>Server configurations\<close>

datatype MCPTransportType = STDIO | SSE | HTTP

text \<open>\<^verbatim>\<open>MCPTransportType.value\<close> and the constructor \<^verbatim>\<open>MCPTransportType(v)\<close>, which raises
  \<^verbatim>\<open>ValueError\<close> on anything but the three names.\<close>

fun transport_value :: "MCPTransportType \<Rightarrow> string" where
  "transport_value STDIO = ''stdio''"
| "transport_value SSE = ''sse''"
| "transport_value HTTP = ''http''"

definition transport_of_value :: "json \<Rightarrow> py_error + MCPTransportType" where
  "transport_of_value v =
     (if v = JStr ''stdio'' then Inr STDIO
      else if v = JStr ''sse'' then Inr SSE
      else if v = JStr ''http'' then Inr HTTP
      else Inl ValueError)"

text \<open>The dataclass \<^verbatim>\<open>MCPServerConfig\<close> with its declared field types, after
  \<^verbatim>\<open>__post_init__\<close> (\<open>args\<close> and \<open>env\<close> are never \<^verbatim>\<open>None\<close>).\<close>

record MCPServerConfig =
  name :: string
  command :: string
  args :: "string list"
  env :: "(string \<times> string) list"
  transport :: MCPTransportType
  url :: "string option"
  enabled :: bool
  description :: "string option"

section \<open>Tools, resources and connections\<close>

text \<open>The dataclasses \<^verbatim>\<open>MCPTool\<close> and \<^verbatim>\<open>MCPResource\<close>.  Their field annotations are not
  checked: apart from \<open>server_name\<close>, which is the name of the configuration, a field holds
  whatever the server sent.\<close>

record MCPTool =
  t_name :: json
  t_description :: json
  inputSchema :: json
  t_server_name :: string

record MCPResource =
  uri :: json
  r_name :: json
  r_description :: json
  mimeType :: json
  r_server_name :: string

text \<open>\<^verbatim>\<open>MCPServerConnection\<close>; \<open>conn_initialized\<close> is its \<^verbatim>\<open>_initialized\<close>.\<close>

record MCPServerConnection =
  config :: MCPServerConfig
  process :: "subprocess option"
  tools :: "(pykey \<times> MCPTool) list"
  resources :: "(pykey \<times> MCPResource) list"
  conn_initialized :: bool

definition MCPServerConnection_init :: "MCPServerConfig \<Rightarrow> MCPServerConnection" where
  "MCPServerConnection_init server_config =
     \<lparr>config = server_config, process = None, tools = [], resources = [],
      conn_initialized = False\<rparr>"

text \<open>What one connection attempt finds outside the program: whether \<^verbatim>\<open>subprocess.Popen\<close>
  of an argument vector and environment starts a subprocess, and the three request ids that
  \<^verbatim>\<open>uuid.uuid4()\<close> yields during the handshake.\<close>

record launch =
  popen :: "string list \<Rightarrow> (string \<times> string) list option \<Rightarrow> py_error + subprocess"
  uuid_initialize :: string
  uuid_tools_list :: string
  uuid_resources_list :: string

text \<open>The surroundings of the client: the Python runtime, \<^verbatim>\<open>os.environ\<close>, and what the
  connection attempt registered under each server key finds.\<close>

record world =
  runtime :: py_runtime
  os_environ :: "(string \<times> string) list"
  launches :: "string \<Rightarrow> launch"

definition init_request :: "string \<Rightarrow> (string \<times> json) list" where
  "init_request uid =
     [(''jsonrpc'', JStr ''2.0''),
      (''id'', JStr uid),
      (''method'', JStr ''initialize''),
      (''params'', JObj
         [(''protocolVersion'', JStr ''2024-11-05''),
          (''capabilities'', JObj [(''roots'', JObj [(''listChanged'', JBool True)]),
                                   (''sampling'', JObj [])]),
          (''clientInfo'', JObj [(''name'', JStr ''HemPa-MCP-Client''),
                                 (''version'', JStr ''1.0.0'')])])]"

definition initialized_notification :: json where
  "initialized_notification =
     JObj [(''jsonrpc'', JStr ''2.0''), (''method'', JStr ''notifications/initialized'')]"

definition list_request :: "string \<Rightarrow> string \<Rightarrow> (string \<times> json) list" where
  "list_request uid method =
     [(''jsonrpc'', JStr ''2.0''), (''id'', JStr uid), (''method'', JStr method)]"

definition call_request :: "string \<Rightarrow> string \<Rightarrow> json \<Rightarrow> (string \<times> json) list" where
  "call_request uid tool_name arguments =
     [(''jsonrpc'', JStr ''2.0''),
      (''id'', JStr uid),
      (''method'', JStr ''tools/call''),
      (''params'', JObj [(''name'', JStr tool_name), (''arguments'', arguments)])]"

text \<open>One item of \<^verbatim>\<open>result.tools\<close>: \<^verbatim>\<open>tool_data["name"]\<close> needs a dict with that key;
  the name is stored as it came.\<close>

definition tool_of_json :: "string \<Rightarrow> json \<Rightarrow> py_error + MCPTool" where
  "tool_of_json server tool_data =
     (case tool_data of
        JObj d \<Rightarrow>
          (case map_of d ''name'' of
             None \<Rightarrow> Inl KeyError
           | Some n \<Rightarrow>
               Inr \<lparr>t_name = n,
                    t_description = py_get_default d ''description'' (JStr []),
                    inputSchema = py_get_default d ''inputSchema'' (JObj []),
                    t_server_name = server\<rparr>)
      | v \<Rightarrow> Inl TypeError)"

definition resource_of_json :: "string \<Rightarrow> json \<Rightarrow> py_error + MCPResource" where
  "resource_of_json server resource_data =
     (case resource_data of
        JObj d \<Rightarrow>
          (case map_of d ''uri'' of
             None \<Rightarrow> Inl KeyError
           | Some u \<Rightarrow>
               (case map_of d ''name'' of
                  None \<Rightarrow> Inl KeyError
                | Some n \<Rightarrow>
                    Inr \<lparr>uri = u,
                         r_name = n,
                         r_description = py_get d ''description'',
                         mimeType = py_get d ''mimeType'',
                         r_server_name = server\<rparr>))
      | v \<Rightarrow> Inl TypeError)"

text \<open>The two \<^verbatim>\<open>for\<close> loops of \<^verbatim>\<open>_discover_capabilities\<close>, with
  \<^verbatim>\<open>self.tools[tool.name] = tool\<close> and \<^verbatim>\<open>self.resources[resource.uri] = resource\<close>, which need
  a hashable key.  An exception leaves the entries stored so far in place.\<close>

fun add_tools ::
  "string \<Rightarrow> json list \<Rightarrow> (pykey \<times> MCPTool) list \<Rightarrow> py_error option \<times> (pykey \<times> MCPTool) list" where
  "add_tools server [] ts = (None, ts)"
| "add_tools server (tool_data # rest) ts =
     (case tool_of_json server tool_data of
        Inl e \<Rightarrow> (Some e, ts)
      | Inr tool \<Rightarrow>
          (case key_of (t_name tool) of
             Inl e \<Rightarrow> (Some e, ts)
           | Inr k \<Rightarrow> add_tools server rest (dict_set ts k tool)))"

fun add_resources ::
  "string \<Rightarrow> json list \<Rightarrow> (pykey \<times> MCPResource) list
     \<Rightarrow> py_error option \<times> (pykey \<times> MCPResource) list" where
  "add_resources server [] rs = (None, rs)"
| "add_resources server (resource_data # rest) rs =
     (case resource_of_json server resource_data of
        Inl e \<Rightarrow> (Some e, rs)
      | Inr resource \<Rightarrow>
          (case key_of (uri resource) of
             Inl e \<Rightarrow> (Some e, rs)
           | Inr k \<Rightarrow> add_resources server rest (dict_set rs k resource)))"

text \<open>\<^verbatim>\<open>if response and "result" in response: data = response["result"].get(key, [])\<close>
  followed by the iteration over \<open>data\<close>; \<open>None\<close> when the branch is not taken.\<close>

definition listed_items ::
  "(string \<times> json) list option \<Rightarrow> string \<Rightarrow> (py_error + json list) option" where
  "listed_items response key =
     (case response of
        None \<Rightarrow> None
      | Some m \<Rightarrow>
          if m = [] \<or> \<not> has_key m ''result'' then None
          else (case py_get m ''result'' of
                  JObj r \<Rightarrow> Some (py_iter (py_get_default r key (JArr [])))
                | v \<Rightarrow> Some (Inl AttributeError)))"

definition discover_capabilities ::
  "py_runtime \<Rightarrow> string \<Rightarrow> string \<Rightarrow> MCPServerConnection \<Rightarrow> py_error option \<times> MCPServerConnection" where
  "discover_capabilities rt uid_tools uid_resources c =
     (let (tools_response, pr) = send_request rt (list_request uid_tools ''tools/list'') (process c);
          c1 = c\<lparr>process := pr\<rparr>;
          (err1, ts) = (case listed_items tools_response ''tools'' of
                          None \<Rightarrow> (None, tools c1)
                        | Some (Inl e) \<Rightarrow> (Some e, tools c1)
                        | Some (Inr tools_data) \<Rightarrow> add_tools (name (config c1)) tools_data (tools c1));
          c2 = c1\<lparr>tools := ts\<rparr>
      in case err1 of
           Some e \<Rightarrow> (Some e, c2)
         | None \<Rightarrow>
            (let (resources_response, pr') =
                   send_request rt (list_request uid_resources ''resources/list'') (process c2);
                 c3 = c2\<lparr>process := pr'\<rparr>;
                 (err2, rs) = (case listed_items resources_response ''resources'' of
                                 None \<Rightarrow> (None, resources c3)
                               | Some (Inl e) \<Rightarrow> (Some e, resources c3)
                               | Some (Inr resources_data) \<Rightarrow>
                                   add_resources (name (config c3)) resources_data (resources c3))
             in (err2, c3\<lparr>resources := rs\<rparr>)))"

text \<open>\<^verbatim>\<open>process.terminate()\<close>\<close>

definition terminate :: "subprocess \<Rightarrow> subprocess" where
  "terminate p = p\<lparr>signals := signals p @ [SIGTERM]\<rparr>"

text \<open>\<^verbatim>\<open>_connect_stdio\<close>.  A failing \<^verbatim>\<open>Popen\<close> leaves \<^verbatim>\<open>self.process\<close> unset; a missing or
  error reply to \<^verbatim>\<open>initialize\<close> returns \<^verbatim>\<open>False\<close> with the subprocess left running; an
  exception during discovery terminates it.\<close>

definition connect_stdio ::
  "world \<Rightarrow> launch \<Rightarrow> MCPServerConnection \<Rightarrow> bool \<times> MCPServerConnection" where
  "connect_stdio w l c =
     (let env0 = env (config c)
      in case popen l (command (config c) # args (config c))
                (if env0 \<noteq> [] then Some (dict_update (os_environ w) env0) else None) of
           Inl e \<Rightarrow> (False, c)
         | Inr p \<Rightarrow>
            (let (response, pr) =
                   send_request (runtime w) (init_request (uuid_initialize l)) (Some p);
                 c2 = c\<lparr>process := pr\<rparr>
             in case response of
                  None \<Rightarrow> (False, c2)
                | Some m \<Rightarrow>
                    if m = [] \<or> has_key m ''error'' then (False, c2)
                    else
                      (let c3 = c2\<lparr>process := send_notification initialized_notification (process c2)\<rparr>
                       in case discover_capabilities (runtime w)
                                 (uuid_tools_list l) (uuid_resources_list l) c3 of
                            (Some e, c4) \<Rightarrow> (False, c4\<lparr>process := map_option terminate (process c4)\<rparr>)
                          | (None, c4) \<Rightarrow> (True, c4\<lparr>conn_initialized := True\<rparr>))))"

text \<open>\<^verbatim>\<open>connect\<close>: only the stdio transport is implemented.\<close>

definition connect :: "world \<Rightarrow> launch \<Rightarrow> MCPServerConnection \<Rightarrow> bool \<times> MCPServerConnection" where
  "connect w l c =
     (if transport (config c) = STDIO then connect_stdio w l c else (False, c))"

text \<open>The loop of \<^verbatim>\<open>call_tool\<close> over \<^verbatim>\<open>result["content"]\<close>: \<^verbatim>\<open>item.get\<close> needs a dict.\<close>

fun collect_text :: "json list \<Rightarrow> py_error + json list" where
  "collect_text [] = Inr []"
| "collect_text (JObj item # rest) =
     (case collect_text rest of
        Inl e \<Rightarrow> Inl e
      | Inr acc \<Rightarrow>
          if py_get item ''type'' = JStr ''text''
          then Inr (py_get_default item ''text'' (JStr []) # acc)
          else Inr acc)"
| "collect_text (v # rest) = Inl AttributeError"

text \<open>The part of \<^verbatim>\<open>call_tool\<close> after the request: how the response becomes
  \<^verbatim>\<open>(success, text)\<close>, or which exception the \<^verbatim>\<open>try\<close> block meets.\<close>

definition interpret_call_response ::
  "py_runtime \<Rightarrow> (string \<times> json) list option \<Rightarrow> py_error + (bool \<times> string)" where
  "interpret_call_response rt response =
     (case response of
        None \<Rightarrow> Inr (False, ''No response from server'')
      | Some m \<Rightarrow>
          if m = [] then Inr (False, ''No response from server'')
          else if has_key m ''error'' then
            (case py_get m ''error'' of
               JObj error \<Rightarrow>
                 Inr (False, ''Server error: ''
                        @ py_str rt (py_get_default error ''message'' (JStr ''Unknown error'')))
             | v \<Rightarrow> Inl AttributeError)
          else if has_key m ''result'' then
            (let result = py_get m ''result''
             in case py_in ''content'' result of
                  Inl e \<Rightarrow> Inl e
                | Inr True \<Rightarrow>
                    (case py_getitem result ''content'' of
                       Inl e \<Rightarrow> Inl e
                     | Inr content_items \<Rightarrow>
                         (case py_iter content_items of
                            Inl e \<Rightarrow> Inl e
                          | Inr items \<Rightarrow>
                              (case collect_text items of
                                 Inl e \<Rightarrow> Inl e
                               | Inr formatted_content \<Rightarrow>
                                   (case py_join formatted_content of
                                      Inl e \<Rightarrow> Inl e
                                    | Inr text \<Rightarrow> Inr (True, text)))))
                | Inr False \<Rightarrow> Inr (True, dumps_indent2 rt result))
          else Inr (False, ''No result in response''))"

text \<open>\<^verbatim>\<open>call_tool\<close>; \<open>uid\<close> is the \<^verbatim>\<open>str(uuid.uuid4())\<close> of this call.  The name asked for
  is a string, so \<^verbatim>\<open>tool_name not in self.tools\<close> looks for a string key.\<close>

definition call_tool ::
  "py_runtime \<Rightarrow> string \<Rightarrow> string \<Rightarrow> json \<Rightarrow> MCPServerConnection
     \<Rightarrow> (bool \<times> string) \<times> MCPServerConnection" where
  "call_tool rt uid tool_name arguments c =
     (if \<not> conn_initialized c \<or> \<not> has_key (tools c) (KStr tool_name)
      then ((False, ''Tool '' @ tool_name @ '' not available on server '' @ name (config c)), c)
      else
        (let (response, pr) = send_request rt (call_request uid tool_name arguments) (process c);
             c' = c\<lparr>process := pr\<rparr>
         in case interpret_call_response rt response of
              Inl e \<Rightarrow> ((False, ''Tool execution error: '' @ exc_text rt e), c')
            | Inr r \<Rightarrow> (r, c')))"

text \<open>\<^verbatim>\<open>disconnect\<close>: \<^verbatim>\<open>terminate\<close>, a wait of five seconds, \<^verbatim>\<open>kill\<close> when the wait times
  out; the handle is dropped and the flag cleared.  The first component is the subprocess as
  it is left behind.\<close>

definition disconnect :: "MCPServerConnection \<Rightarrow> subprocess option \<times> MCPServerConnection" where
  "disconnect c =
     (case process c of
        None \<Rightarrow> (None, c\<lparr>conn_initialized := False\<rparr>)
      | Some p \<Rightarrow>
          (Some (if exits_on_terminate p then terminate p
                 else (terminate p)\<lparr>signals := signals (terminate p) @ [SIGKILL]\<rparr>),
           c\<lparr>process := None, conn_initialized := False\<rparr>))"

section \<open>The configuration manager\<close>

text \<open>\<^verbatim>\<open>MCPConfigManager\<close>: the dict of server configurations by key.  Writing the
  configuration file (\<^verbatim>\<open>_save_config\<close>, which swallows its own failures) has no effect on
  what the operations below return and is left out.\<close>

record MCPConfigManager =
  servers :: "(string \<times> MCPServerConfig) list"

definition get_enabled_servers :: "MCPConfigManager \<Rightarrow> (string \<times> MCPServerConfig) list" where
  "get_enabled_servers cm = filter (\<lambda>(server_name, server). enabled server) (servers cm)"

text \<open>\<^verbatim>\<open>add_server\<close> files a configuration under its own name.\<close>

definition add_server :: "MCPServerConfig \<Rightarrow> MCPConfigManager \<Rightarrow> MCPConfigManager" where
  "add_server server cm = cm\<lparr>servers := dict_set (servers cm) (name server) server\<rparr>"

text \<open>\<^verbatim>\<open>_create_default_config\<close>, over the entries of \<^verbatim>\<open>MCP_SERVER_CONFIGS\<close> already
  read into records: each is filed under the key of the table, not under its name.\<close>

definition create_default_config :: "(string \<times> MCPServerConfig) list \<Rightarrow> MCPConfigManager" where
  "create_default_config table =
     \<lparr>servers = fold (\<lambda>(key, server) acc. dict_set acc key server) table []\<rparr>"

text \<open>\<^verbatim>\<open>to_dict\<close>: \<^verbatim>\<open>asdict\<close> lists the fields in declaration order, then the transport is
  replaced by its value.\<close>

definition opt_str :: "string option \<Rightarrow> json" where
  "opt_str s = (case s of None \<Rightarrow> JNull | Some t \<Rightarrow> JStr t)"

definition to_dict :: "MCPServerConfig \<Rightarrow> json" where
  "to_dict s =
     JObj [(''name'', JStr (name s)),
           (''command'', JStr (command s)),
           (''args'', JArr (map JStr (args s))),
           (''env'', JObj (map (\<lambda>(k, v). (k, JStr v)) (env s))),
           (''transport'', JStr (transport_value (transport s))),
           (''url'', opt_str (url s)),
           (''enabled'', JBool (enabled s)),
           (''description'', opt_str (description s))]"

text \<open>Reading a JSON value at a declared field type.  Python stores whatever it is given; a
  value of another type has no record here, and the readers return \<open>None\<close> for it: the model
  says nothing about such a configuration.  \<^verbatim>\<open>None\<close> for \<open>args\<close> or \<open>env\<close> becomes the empty
  list or dict in \<^verbatim>\<open>__post_init__\<close>.\<close>

fun as_str :: "json \<Rightarrow> string option" where
  "as_str (JStr s) = Some s"
| "as_str v = None"

fun as_opt_str :: "json \<Rightarrow> string option option" where
  "as_opt_str JNull = Some None"
| "as_opt_str (JStr s) = Some (Some s)"
| "as_opt_str v = None"

fun as_bool :: "json \<Rightarrow> bool option" where
  "as_bool (JBool b) = Some b"
| "as_bool v = None"

fun strs_of :: "json list \<Rightarrow> string list option" where
  "strs_of [] = Some []"
| "strs_of (JStr s # xs) = (case strs_of xs of None \<Rightarrow> None | Some r \<Rightarrow> Some (s # r))"
| "strs_of (v # xs) = None"

fun as_str_list :: "json \<Rightarrow> string list option" where
  "as_str_list JNull = Some []"
| "as_str_list (JArr xs) = strs_of xs"
| "as_str_list v = None"

fun str_items_of :: "(string \<times> json) list \<Rightarrow> (string \<times> string) list option" where
  "str_items_of [] = Some []"
| "str_items_of ((k, JStr s) # xs) =
     (case str_items_of xs of None \<Rightarrow> None | Some r \<Rightarrow> Some ((k, s) # r))"
| "str_items_of (kv # xs) = None"

fun as_str_dict :: "json \<Rightarrow> (string \<times> string) list option" where
  "as_str_dict JNull = Some []"
| "as_str_dict (JObj kvs) = str_items_of kvs"
| "as_str_dict v = None"

definition field_names :: "string list" where
  "field_names =
     [''name'', ''command'', ''args'', ''env'', ''transport'', ''url'', ''enabled'', ''description'']"

text \<open>\<^verbatim>\<open>cls(**data)\<close> once the keys have been accepted: the fields are read at their declared
  types, a missing one at its default.\<close>

definition read_fields :: "(string \<times> json) list \<Rightarrow> MCPTransportType \<Rightarrow> MCPServerConfig option" where
  "read_fields d tr =
     (case as_str (py_get d ''name'') of None \<Rightarrow> None | Some n \<Rightarrow>
      case as_str (py_get d ''command'') of None \<Rightarrow> None | Some c \<Rightarrow>
      case as_str_list (py_get d ''args'') of None \<Rightarrow> None | Some a \<Rightarrow>
      case as_str_dict (py_get d ''env'') of None \<Rightarrow> None | Some e \<Rightarrow>
      case as_opt_str (py_get d ''url'') of None \<Rightarrow> None | Some u \<Rightarrow>
      case as_bool (py_get_default d ''enabled'' (JBool True)) of None \<Rightarrow> None | Some en \<Rightarrow>
      case as_opt_str (py_get d ''description'') of None \<Rightarrow> None | Some ds \<Rightarrow>
        Some \<lparr>name = n, command = c, args = a, env = e, transport = tr,
              url = u, enabled = en, description = ds\<rparr>)"

text \<open>\<^verbatim>\<open>from_dict\<close>: the transport name is converted first (\<^verbatim>\<open>ValueError\<close>), then
  \<^verbatim>\<open>cls(**data)\<close> refuses a value that is not a mapping, a key that is no field, and a missing
  \<open>name\<close> or \<open>command\<close> (\<^verbatim>\<open>TypeError\<close>); the other fields have defaults.  The result is
  \<open>None\<close> where Python builds an object with a field outside its declared type.\<close>

definition from_dict :: "json \<Rightarrow> (py_error + MCPServerConfig) option" where
  "from_dict data =
     (case data of
        JObj d \<Rightarrow>
          (case (if has_key d ''transport'' then transport_of_value (py_get d ''transport'')
                 else Inr STDIO) of
             Inl e \<Rightarrow> Some (Inl e)
           | Inr tr \<Rightarrow>
               if \<not> list_all (\<lambda>k. k \<in> set field_names) (map fst d) then Some (Inl TypeError)
               else if \<not> has_key d ''name'' \<or> \<not> has_key d ''command'' then Some (Inl TypeError)
               else map_option Inr (read_fields d tr))
      | v \<Rightarrow> Some (Inl TypeError))"

text \<open>\<^verbatim>\<open>export_config\<close> and the document it serialises.\<close>

definition export_document :: "MCPConfigManager \<Rightarrow> json" where
  "export_document cm =
     JObj [(''servers'', JObj (map (\<lambda>(server_name, server). (server_name, to_dict server)) (servers cm)))]"

definition export_config :: "py_runtime \<Rightarrow> MCPConfigManager \<Rightarrow> string" where
  "export_config rt cm = dumps_indent2 rt (export_document cm)"

text \<open>The loop of \<^verbatim>\<open>import_config\<close> and the function itself: any exception leaves the
  manager as it was and returns \<^verbatim>\<open>False\<close>.  The result is \<open>None\<close> where an entry read before
  the end of the loop is outside its declared types.\<close>

fun import_servers ::
  "(string \<times> json) list \<Rightarrow> (string \<times> MCPServerConfig) list
     \<Rightarrow> (py_error + (string \<times> MCPServerConfig) list) option" where
  "import_servers [] acc = Some (Inr acc)"
| "import_servers ((server_name, cfg) # rest) acc =
     (case from_dict cfg of
        None \<Rightarrow> None
      | Some (Inl e) \<Rightarrow> Some (Inl e)
      | Some (Inr server) \<Rightarrow> import_servers rest (dict_set acc server_name server))"

definition import_config ::
  "py_runtime \<Rightarrow> string \<Rightarrow> MCPConfigManager \<Rightarrow> (bool \<times> MCPConfigManager) option" where
  "import_config rt json_data cm =
     (case loads rt json_data of
        None \<Rightarrow> Some (False, cm)
      | Some (JObj data) \<Rightarrow>
          (case py_get_default data ''servers'' (JObj []) of
             JObj entries \<Rightarrow>
               (case import_servers entries [] of
                  None \<Rightarrow> None
                | Some (Inl e) \<Rightarrow> Some (False, cm)
                | Some (Inr imported) \<Rightarrow> Some (True, cm\<lparr>servers := imported\<rparr>))
           | v \<Rightarrow> Some (False, cm))
      | Some v \<Rightarrow> Some (False, cm))"

section \<open>The client registry\<close>

text \<open>
  The two catalogs of the registry are dict objects that the registry updates in place and
  hands out copies of, so they live in a store: a reference is a number, \<open>next_ref\<close> is the
  first reference not yet given out.
\<close>

record heap =
  tool_dicts :: "nat \<Rightarrow> (pykey \<times> MCPTool) list"
  resource_dicts :: "nat \<Rightarrow> (pykey \<times> MCPResource) list"
  next_ref :: nat

text \<open>\<^verbatim>\<open>DynamicMCPClient\<close>; \<open>client_initialized\<close> is its \<^verbatim>\<open>_initialized\<close>.  \<open>initialize_calls\<close>
  is not a field of the class: it counts the runs of \<^verbatim>\<open>initialize\<close>, for the statements
  about how often it is triggered.\<close>

record DynamicMCPClient =
  config_manager :: MCPConfigManager
  server_connections :: "(string \<times> MCPServerConnection) list"
  available_tools :: nat
  available_resources :: nat
  client_initialized :: bool
  initialize_calls :: nat

definition DynamicMCPClient_init :: "heap \<Rightarrow> MCPConfigManager \<Rightarrow> heap \<times> DynamicMCPClient" where
  "DynamicMCPClient_init h cm =
     (h\<lparr>tool_dicts := (tool_dicts h)(next_ref h := []),
        resource_dicts := (resource_dicts h)(Suc (next_ref h) := []),
        next_ref := Suc (Suc (next_ref h))\<rparr>,
      \<lparr>config_manager = cm, server_connections = [],
       available_tools = next_ref h, available_resources = Suc (next_ref h),
       client_initialized = False, initialize_calls = 0\<rparr>)"

text \<open>The first loop of \<^verbatim>\<open>initialize\<close> registers a fresh connection under every enabled
  key.  \<^verbatim>\<open>asyncio.gather\<close> then runs the connection attempts; none of them yields to the event
  loop before it is done, so they run one after the other in the order of the loop, each on
  the connection object registered under its key.\<close>

definition register_connections ::
  "(string \<times> MCPServerConfig) list \<Rightarrow> (string \<times> MCPServerConnection) list
     \<Rightarrow> (string \<times> MCPServerConnection) list" where
  "register_connections enabled_servers conns =
     fold (\<lambda>(server_name, server_config) acc.
             dict_set acc server_name (MCPServerConnection_init server_config))
          enabled_servers conns"

fun gather_connect ::
  "world \<Rightarrow> (string \<times> MCPServerConfig) list \<Rightarrow> (string \<times> MCPServerConnection) list
     \<Rightarrow> bool list \<times> (string \<times> MCPServerConnection) list" where
  "gather_connect w [] conns = ([], conns)"
| "gather_connect w ((server_name, server_config) # rest) conns =
     (let (ok, connection) =
            connect w (launches w server_name) (MCPServerConnection_init server_config);
          (results, conns') = gather_connect w rest (dict_set conns server_name connection)
      in (ok # results, conns'))"

text \<open>The second loop of \<^verbatim>\<open>initialize\<close>, over \<^verbatim>\<open>server_connections.values()\<close>.\<close>

definition aggregate ::
  "(string \<times> MCPServerConnection) list
     \<Rightarrow> (pykey \<times> MCPTool) list \<times> (pykey \<times> MCPResource) list
     \<Rightarrow> (pykey \<times> MCPTool) list \<times> (pykey \<times> MCPResource) list" where
  "aggregate conns catalogs =
     fold (\<lambda>(server_name, connection) (ts, rs).
             if conn_initialized connection
             then (dict_update ts (tools connection), dict_update rs (resources connection))
             else (ts, rs))
          conns catalogs"

fun initialize :: "world \<Rightarrow> heap \<times> DynamicMCPClient \<Rightarrow> bool \<times> heap \<times> DynamicMCPClient" where
  "initialize w (h, r) =
     (let enabled_servers = get_enabled_servers (config_manager r);
          registered = register_connections enabled_servers (server_connections r);
          (results, conns) = gather_connect w enabled_servers registered;
          (ts, rs) = aggregate conns (tool_dicts h (available_tools r),
                                      resource_dicts h (available_resources r));
          h1 = h\<lparr>tool_dicts := (tool_dicts h)(available_tools r := ts)\<rparr>;
          h2 = h1\<lparr>resource_dicts := (resource_dicts h1)(available_resources r := rs)\<rparr>;
          success_count = length (filter (\<lambda>ok. ok) results)
      in (success_count > 0,
          h2,
          r\<lparr>server_connections := conns,
            client_initialized := True,
            initialize_calls := Suc (initialize_calls r)\<rparr>))"

text \<open>The getters return a reference to a new dict object holding a copy of the catalog.\<close>

fun get_available_tools :: "world \<Rightarrow> heap \<times> DynamicMCPClient \<Rightarrow> nat \<times> heap \<times> DynamicMCPClient" where
  "get_available_tools w (h, r) =
     (let (h1, r1) = (if \<not> client_initialized r then snd (initialize w (h, r)) else (h, r));
          copy = next_ref h1
      in (copy,
          h1\<lparr>tool_dicts := (tool_dicts h1)(copy := tool_dicts h1 (available_tools r1)),
             next_ref := Suc copy\<rparr>,
          r1))"

fun get_available_resources ::
  "world \<Rightarrow> heap \<times> DynamicMCPClient \<Rightarrow> nat \<times> heap \<times> DynamicMCPClient" where
  "get_available_resources w (h, r) =
     (let (h1, r1) = (if \<not> client_initialized r then snd (initialize w (h, r)) else (h, r));
          copy = next_ref h1
      in (copy,
          h1\<lparr>resource_dicts := (resource_dicts h1)(copy := resource_dicts h1 (available_resources r1)),
             next_ref := Suc copy\<rparr>,
          r1))"

text \<open>\<^verbatim>\<open>execute_tool\<close>; \<open>uid\<close> is the request id drawn by \<^verbatim>\<open>call_tool\<close>.  The name asked
  for is a string, so the catalog is searched for a string key.  The connection is an object
  of the connection map, so what the call does to it shows there.\<close>

fun execute_tool ::
  "world \<Rightarrow> string \<Rightarrow> heap \<times> DynamicMCPClient \<Rightarrow> string \<Rightarrow> json
     \<Rightarrow> (bool \<times> string) \<times> DynamicMCPClient" where
  "execute_tool w uid (h, r) tool_name parameters =
     (case map_of (tool_dicts h (available_tools r)) (KStr tool_name) of
        None \<Rightarrow> ((False, ''Tool '' @ tool_name @ '' not found''), r)
      | Some tool \<Rightarrow>
          (case map_of (server_connections r) (t_server_name tool) of
             None \<Rightarrow> ((False, ''Server '' @ t_server_name tool @ '' not connected''), r)
           | Some connection \<Rightarrow>
               if \<not> conn_initialized connection
               then ((False, ''Server '' @ t_server_name tool @ '' not connected''), r)
               else
                 (let (result, connection') =
                        call_tool (runtime w) uid tool_name parameters connection
                  in (result,
                      r\<lparr>server_connections :=
                          dict_set (server_connections r) (t_server_name tool) connection'\<rparr>))))"

definition capability_patterns :: "(string \<times> string list) list" where
  "capability_patterns =
     [(''weather'', [''forecast'', ''weather'', ''alerts'', ''temperature'', ''climate'']),
      (''math'', [''add'', ''sub'', ''multiply'', ''calculate'', ''solve'', ''equation'']),
      (''search'', [''search'', ''find'', ''lookup'']),
      (''filesystem'', [''list_files'', ''read_file'', ''write_file'', ''file'']),
      (''database'', [''query'', ''table'', ''sql'', ''database'']),
      (''usda'', [''food'', ''nutrition'', ''usda'']),
      (''food'', [''food'', ''nutrition'', ''usda'']),
      (''nutrition'', [''food'', ''nutrition'', ''usda''])]"

text \<open>\<^verbatim>\<open>tool_name.lower()\<close> on a key of the catalog: only a string has the method.\<close>

fun key_lower :: "py_runtime \<Rightarrow> pykey \<Rightarrow> py_error + string" where
  "key_lower rt (KStr s) = Inr (str_lower rt s)"
| "key_lower rt k = Inl AttributeError"

text \<open>The first search of \<^verbatim>\<open>has_capability\<close>: \<^verbatim>\<open>for pattern in patterns\<close> on one tool
  name, and \<^verbatim>\<open>for tool_name in self.available_tools\<close> around it.  Each returns at its first
  hit.\<close>

fun name_matches :: "py_runtime \<Rightarrow> pykey \<Rightarrow> string list \<Rightarrow> py_error + bool" where
  "name_matches rt tool_name [] = Inr False"
| "name_matches rt tool_name (pattern # patterns) =
     (case key_lower rt tool_name of
        Inl e \<Rightarrow> Inl e
      | Inr lowered \<Rightarrow>
          if str_contains lowered pattern then Inr True
          else name_matches rt tool_name patterns)"

fun any_name_matches :: "py_runtime \<Rightarrow> pykey list \<Rightarrow> string list \<Rightarrow> py_error + bool" where
  "any_name_matches rt [] patterns = Inr False"
| "any_name_matches rt (tool_name # tool_names) patterns =
     (case name_matches rt tool_name patterns of
        Inl e \<Rightarrow> Inl e
      | Inr found \<Rightarrow>
          if found then Inr True else any_name_matches rt tool_names patterns)"

text \<open>The second search: the lowercased topic itself in a lowercased tool name.\<close>

fun any_name_contains :: "py_runtime \<Rightarrow> pykey list \<Rightarrow> string \<Rightarrow> py_error + bool" where
  "any_name_contains rt [] capability_lower = Inr False"
| "any_name_contains rt (tool_name # tool_names) capability_lower =
     (case key_lower rt tool_name of
        Inl e \<Rightarrow> Inl e
      | Inr lowered \<Rightarrow>
          if str_contains lowered capability_lower then Inr True
          else any_name_contains rt tool_names capability_lower)"

text \<open>\<^verbatim>\<open>has_capability\<close>.  It has no handler of its own: an exception of a search is the
  outcome of the call.\<close>

fun has_capability :: "world \<Rightarrow> heap \<times> DynamicMCPClient \<Rightarrow> string \<Rightarrow> py_error + bool" where
  "has_capability w (h, r) capability =
     (let capability_lower = str_lower (runtime w) capability;
          tool_names = map fst (tool_dicts h (available_tools r))
      in case (case map_of capability_patterns capability_lower of
                 None \<Rightarrow> Inr False
               | Some patterns \<Rightarrow> any_name_matches (runtime w) tool_names patterns) of
           Inl e \<Rightarrow> Inl e
         | Inr found \<Rightarrow>
             if found then Inr True
             else any_name_contains (runtime w) tool_names capability_lower)"

text \<open>\<^verbatim>\<open>cleanup\<close>.  The connection objects leave the map; the first component lists them as
  \<^verbatim>\<open>disconnect\<close> left them, each with its subprocess.\<close>

fun cleanup ::
  "heap \<times> DynamicMCPClient
     \<Rightarrow> (subprocess option \<times> MCPServerConnection) list \<times> heap \<times> DynamicMCPClient" where
  "cleanup (h, r) =
     (let disconnected = map (\<lambda>(server_name, connection). disconnect connection)
                             (server_connections r);
          h1 = h\<lparr>tool_dicts := (tool_dicts h)(available_tools r := [])\<rparr>;
          h2 = h1\<lparr>resource_dicts := (resource_dicts h1)(available_resources r := [])\<rparr>
      in (disconnected, h2, r\<lparr>server_connections := [], client_initialized := False\<rparr>))"

section \<open>A JSON text format for the scenarios\<close>

text \<open>
  The scenarios need a runtime whose \<^verbatim>\<open>json.loads\<close> reads back what \<^verbatim>\<open>json.dumps\<close> wrote,
  for every value.  The text format below is not the one of Python: it is a prefix code,
  chosen so that reading it back is a short program.  A natural number is written in unary
  and closed by \<open>0\<close>, a string as its length followed by its characters, a list or dict
  as its items between an opening letter and \<open>e\<close>.
\<close>

definition write_nat :: "nat \<Rightarrow> string" where
  "write_nat n = replicate n (CHR ''1'') @ ''0''"

fun read_nat :: "string \<Rightarrow> (nat \<times> string) option" where
  "read_nat [] = None"
| "read_nat (c # s) =
     (if c = CHR ''0'' then Some (0, s)
      else if c = CHR ''1'' then (case read_nat s of None \<Rightarrow> None | Some (n, r) \<Rightarrow> Some (Suc n, r))
      else None)"

definition write_int :: "int \<Rightarrow> string" where
  "write_int i = (if i < 0 then CHR ''-'' else CHR ''+'') # write_nat (nat \<bar>i\<bar>)"

fun read_int :: "string \<Rightarrow> (int \<times> string) option" where
  "read_int [] = None"
| "read_int (c # s) =
     (if c = CHR ''-'' then (case read_nat s of None \<Rightarrow> None | Some (n, r) \<Rightarrow> Some (- int n, r))
      else if c = CHR ''+'' then (case read_nat s of None \<Rightarrow> None | Some (n, r) \<Rightarrow> Some (int n, r))
      else None)"

definition write_str :: "string \<Rightarrow> string" where
  "write_str s = write_nat (length s) @ s"

definition read_str :: "string \<Rightarrow> (string \<times> string) option" where
  "read_str s =
     (case read_nat s of
        None \<Rightarrow> None
      | Some (n, r) \<Rightarrow> if n \<le> length r then Some (take n r, drop n r) else None)"

fun write_json :: "json \<Rightarrow> string" where
  "write_json JNull = ''n''"
| "write_json (JBool b) = (if b then ''t'' else ''f'')"
| "write_json (JInt i) = CHR ''i'' # write_int i"
| "write_json (JStr s) = CHR ''s'' # write_str s"
| "write_json (JArr xs) = CHR ''a'' # concat (map write_json xs) @ ''e''"
| "write_json (JObj kvs) =
     CHR ''o'' # concat (map (\<lambda>kv. write_str (fst kv) @ write_json (snd kv)) kvs) @ ''e''"

text \<open>The reader works down a budget of steps, so that it is defined on every text; the
  text of a value is read back within a budget of one more than its length.\<close>

fun read_json :: "nat \<Rightarrow> string \<Rightarrow> (json \<times> string) option"
  and read_items :: "nat \<Rightarrow> string \<Rightarrow> (json list \<times> string) option"
  and read_fields_text :: "nat \<Rightarrow> string \<Rightarrow> ((string \<times> json) list \<times> string) option" where
  "read_json 0 s = None"
| "read_json (Suc n) [] = None"
| "read_json (Suc n) (c # s) =
     (if c = CHR ''n'' then Some (JNull, s)
      else if c = CHR ''t'' then Some (JBool True, s)
      else if c = CHR ''f'' then Some (JBool False, s)
      else if c = CHR ''i'' then (case read_int s of None \<Rightarrow> None | Some (i, r) \<Rightarrow> Some (JInt i, r))
      else if c = CHR ''s'' then (case read_str s of None \<Rightarrow> None | Some (t, r) \<Rightarrow> Some (JStr t, r))
      else if c = CHR ''a'' then (case read_items n s of None \<Rightarrow> None | Some (xs, r) \<Rightarrow> Some (JArr xs, r))
      else if c = CHR ''o'' then
        (case read_fields_text n s of None \<Rightarrow> None | Some (kvs, r) \<Rightarrow> Some (JObj kvs, r))
      else None)"
| "read_items 0 s = None"
| "read_items (Suc n) [] = None"
| "read_items (Suc n) (c # s) =
     (if c = CHR ''e'' then Some ([], s)
      else (case read_json n (c # s) of
              None \<Rightarrow> None
            | Some (x, r) \<Rightarrow>
                (case read_items n r of None \<Rightarrow> None | Some (xs, r') \<Rightarrow> Some (x # xs, r'))))"
| "read_fields_text 0 s = None"
| "read_fields_text (Suc n) [] = None"
| "read_fields_text (Suc n) (c # s) =
     (if c = CHR ''e'' then Some ([], s)
      else (case read_str (c # s) of
              None \<Rightarrow> None
            | Some (k, r) \<Rightarrow>
                (case read_json n r of
                   None \<Rightarrow> None
                 | Some (v, r') \<Rightarrow>
                     (case read_fields_text n r' of
                        None \<Rightarrow> None
                      | Some (kvs, r'') \<Rightarrow> Some ((k, v) # kvs, r'')))))"

definition read_text :: "string \<Rightarrow> json option" where
  "read_text s =
     (case read_json (Suc (length s)) s of
        None \<Rightarrow> None
      | Some (v, r) \<Rightarrow> if r = [] then Some v else None)"

text \<open>\<^verbatim>\<open>str.lower\<close> as it acts on ASCII text: the letters \<open>A\<close> to \<open>Z\<close> move to \<open>a\<close> to \<open>z\<close>.\<close>

definition lower_ascii_char :: "char \<Rightarrow> char" where
  "lower_ascii_char c =
     (let n = (of_char c :: nat)
      in if 65 \<le> n \<and> n \<le> 90 then char_of (n + 32) else c)"

definition lower_ascii :: "string \<Rightarrow> string" where
  "lower_ascii s = map lower_ascii_char s"

section \<open>Concrete scenarios\<close>

definition quiet_process :: "line list \<Rightarrow> subprocess" where
  "quiet_process ls =
     \<lparr>stdout_lines = ls, stdin_written = [], stdin_broken = False,
      exits_on_terminate = True, signals = []\<rparr>"

definition result_message :: "string \<Rightarrow> json \<Rightarrow> (string \<times> json) list" where
  "result_message uid result = [(''jsonrpc'', JStr ''2.0''), (''id'', JStr uid), (''result'', result)]"

definition text_item :: "string \<Rightarrow> json" where
  "text_item s = JObj [(''type'', JStr ''text''), (''text'', JStr s)]"

text \<open>Messages a server may send while the client waits for the reply to its
  \<^verbatim>\<open>tools/call\<close> with id \<open>u-call\<close>.\<close>

definition ex_roots_request :: "(string \<times> json) list" where
  "ex_roots_request = [(''jsonrpc'', JStr ''2.0''), (''id'', JInt 1), (''method'', JStr ''roots/list'')]"

definition ex_ping_request :: "(string \<times> json) list" where
  "ex_ping_request = [(''jsonrpc'', JStr ''2.0''), (''id'', JInt 2), (''method'', JStr ''ping'')]"

definition ex_log_message :: "(string \<times> json) list" where
  "ex_log_message = [(''jsonrpc'', JStr ''2.0''), (''method'', JStr ''notifications/message'')]"

definition ex_empty_method :: "(string \<times> json) list" where
  "ex_empty_method = [(''jsonrpc'', JStr ''2.0''), (''id'', JInt 7), (''method'', JStr [])]"

definition ex_colliding_request :: "(string \<times> json) list" where
  "ex_colliding_request =
     [(''jsonrpc'', JStr ''2.0''), (''id'', JStr ''u-call''), (''method'', JStr ''roots/list'')]"

definition ex_call_reply :: "(string \<times> json) list" where
  "ex_call_reply = result_message ''u-call'' (JObj [(''content'', JArr [text_item ''4''])])"

definition ex_add_call :: "(string \<times> json) list" where
  "ex_add_call = call_request ''u-call'' ''add'' (JObj [(''a'', JInt 1), (''b'', JInt 3)])"

text \<open>A math server: it accepts the handshake (ids \<open>u1\<close>, \<open>u2\<close>, \<open>u3\<close>), offers \<open>add\<close> and
  \<open>sub\<close> and no resources, and answers one call after asking for the roots.  A file server
  offers \<open>list_files\<close>.\<close>

definition tool_entry :: "string \<Rightarrow> string \<Rightarrow> json" where
  "tool_entry n d = JObj [(''name'', JStr n), (''description'', JStr d)]"

definition handshake_lines :: "json list \<Rightarrow> line list" where
  "handshake_lines offered =
     [Json (JObj (result_message ''u1'' (JObj [(''protocolVersion'', JStr ''2024-11-05'')]))),
      Json (JObj (result_message ''u2'' (JObj [(''tools'', JArr offered)]))),
      Json (JObj (result_message ''u3'' (JObj [(''resources'', JArr [])])))]"

definition math_server :: subprocess where
  "math_server =
     quiet_process (handshake_lines [tool_entry ''add'' ''Add two numbers'',
                                     tool_entry ''sub'' ''Subtract two numbers'']
                    @ [Json (JObj ex_roots_request), Json (JObj ex_call_reply)])"

definition file_server :: subprocess where
  "file_server = quiet_process (handshake_lines [tool_entry ''list_files'' ''List a directory''])"

definition launch_of :: "py_error + subprocess \<Rightarrow> launch" where
  "launch_of outcome =
     \<lparr>popen = (\<lambda>argv environment. outcome),
      uuid_initialize = ''u1'', uuid_tools_list = ''u2'', uuid_resources_list = ''u3''\<rparr>"

definition server_config :: "string \<Rightarrow> string \<Rightarrow> MCPServerConfig" where
  "server_config n cmd =
     \<lparr>name = n, command = cmd, args = [], env = [], transport = STDIO, url = None,
      enabled = True, description = None\<rparr>"

definition empty_heap :: heap where
  "empty_heap = \<lparr>tool_dicts = (\<lambda>a. []), resource_dicts = (\<lambda>a. []), next_ref = 0\<rparr>"

text \<open>Three servers filed under their own names, the second of which cannot be started.\<close>

definition three_servers :: MCPConfigManager where
  "three_servers =
     add_server (server_config ''filesystem'' ''npx'')
       (add_server (server_config ''broken'' ''no-such-command'')
          (add_server (server_config ''math'' ''python'') \<lparr>servers = []\<rparr>))"

text \<open>Two entries of the table of defaults as \<^verbatim>\<open>defaults.py\<close> has them: the key
  \<open>math_tool\<close> holds the configuration named \<open>My Math Tool\<close>.  Here both servers offer \<open>add\<close>.\<close>

definition default_like :: MCPConfigManager where
  "default_like =
     create_default_config
       [(''weather'', server_config ''weather'' ''python''),
        (''math_tool'', server_config ''My Math Tool'' ''python'')]"

text \<open>A runtime for the scenarios: the text format above for its \<^verbatim>\<open>json\<close> module, and
  \<^verbatim>\<open>str.lower\<close> on ASCII text.\<close>

definition ex_runtime :: py_runtime where
  "ex_runtime =
     \<lparr>repr = (\<lambda>v. ''<value>''),
      dumps_indent2 = write_json,
      loads = read_text,
      exc_text = (\<lambda>e. ''exception''),
      str_lower = lower_ascii\<rparr>"

definition ex_world :: world where
  "ex_world =
     \<lparr>runtime = ex_runtime,
      os_environ = [(''PATH'', ''/usr/bin'')],
      launches = (\<lambda>key. if key = ''broken'' then launch_of (Inl OSError)
                        else if key = ''filesystem'' then launch_of (Inr file_server)
                        else launch_of (Inr math_server))\<rparr>"

text \<open>The registry after \<^verbatim>\<open>initialize\<close> on the three servers, and the same registry once
  its connections have been disconnected behind its back.\<close>

definition ex_state :: "heap \<times> DynamicMCPClient" where
  "ex_state = snd (initialize ex_world (DynamicMCPClient_init empty_heap three_servers))"

definition ex_state_disconnected :: "heap \<times> DynamicMCPClient" where
  "ex_state_disconnected =
     (fst ex_state,
      (snd ex_state)\<lparr>server_connections :=
         map (\<lambda>(server_name, connection). (server_name, snd (disconnect connection)))
             (server_connections (snd ex_state))\<rparr>)"

text \<open>The registry after \<^verbatim>\<open>initialize\<close> on the two defaults.\<close>

definition ex_state_default :: "heap \<times> DynamicMCPClient" where
  "ex_state_default = snd (initialize ex_world (DynamicMCPClient_init empty_heap default_like))"

text \<open>What \<^verbatim>\<open>initialize\<close> leaves behind on the three servers: the tools, the messages of a
  handshake and the three connections.\<close>

definition ex_tool :: "string \<Rightarrow> string \<Rightarrow> string \<Rightarrow> MCPTool" where
  "ex_tool n d server =
     \<lparr>t_name = JStr n, t_description = JStr d, inputSchema = JObj [], t_server_name = server\<rparr>"

definition ex_handshake_written :: "json list" where
  "ex_handshake_written =
     [JObj (init_request ''u1''), initialized_notification,
      JObj (list_request ''u2'' ''tools/list''), JObj (list_request ''u3'' ''resources/list'')]"

definition ex_math_connection :: "string \<Rightarrow> MCPServerConnection" where
  "ex_math_connection n =
     \<lparr>config = server_config n ''python'',
      process = Some ((quiet_process [Json (JObj ex_roots_request), Json (JObj ex_call_reply)])
                        \<lparr>stdin_written := ex_handshake_written\<rparr>),
      tools = [(KStr ''add'', ex_tool ''add'' ''Add two numbers'' n),
               (KStr ''sub'', ex_tool ''sub'' ''Subtract two numbers'' n)],
      resources = [],
      conn_initialized = True\<rparr>"

definition ex_file_connection :: MCPServerConnection where
  "ex_file_connection =
     \<lparr>config = server_config ''filesystem'' ''npx'',
      process = Some ((quiet_process [])\<lparr>stdin_written := ex_handshake_written\<rparr>),
      tools = [(KStr ''list_files'', ex_tool ''list_files'' ''List a directory'' ''filesystem'')],
      resources = [],
      conn_initialized = True\<rparr>"

section \<open>Notions used to state the properties\<close>

text \<open>Strings joined with newlines, and the content items \<open>{type: "text", text: t}\<close>.\<close>

fun join_lines :: "string list \<Rightarrow> string" where
  "join_lines [] = []"
| "join_lines [s] = s"
| "join_lines (s # t # ts) = s @ CHR 0x0A # join_lines (t # ts)"

fun is_text_item :: "json \<Rightarrow> string \<Rightarrow> bool" where
  "is_text_item (JObj d) t = (py_get d ''type'' = JStr ''text'' \<and> map_of d ''text'' = Some (JStr t))"
| "is_text_item v t = False"

text \<open>The math connection of the scenarios in front of a server that prints the given lines.\<close>

definition ex_serving :: "line list \<Rightarrow> MCPServerConnection" where
  "ex_serving ls = (ex_math_connection ''math'')\<lparr>process := Some (quiet_process ls)\<rparr>"

definition ex_error_reply :: "(string \<times> json) list" where
  "ex_error_reply =
     [(''jsonrpc'', JStr ''2.0''), (''id'', JStr ''u-call''),
      (''error'', JObj [(''code'', JInt (- 32000)), (''message'', JStr ''division by zero'')])]"

definition ex_two_texts :: "(string \<times> json) list" where
  "ex_two_texts =
     result_message ''u-call'' (JObj [(''content'', JArr [text_item ''4'', text_item ''done''])])"

definition ex_plain_result :: "(string \<times> json) list" where
  "ex_plain_result = result_message ''u-call'' (JObj [(''sum'', JInt 4)])"

definition ex_bare_reply :: "(string \<times> json) list" where
  "ex_bare_reply = [(''jsonrpc'', JStr ''2.0''), (''id'', JStr ''u-call'')]"

definition ex_null_result :: "(string \<times> json) list" where
  "ex_null_result = result_message ''u-call'' JNull"

text \<open>The connection attempt that \<^verbatim>\<open>initialize\<close> makes for one enabled entry of the
  configuration: its result and the connection it leaves.\<close>

definition attempt :: "world \<Rightarrow> string \<times> MCPServerConfig \<Rightarrow> bool \<times> MCPServerConnection" where
  "attempt w e = connect w (launches w (fst e)) (MCPServerConnection_init (snd e))"




text \<open>A configuration whose only server cannot be started, and the registry after
  \<^verbatim>\<open>initialize\<close> on it.\<close>

definition only_broken :: MCPConfigManager where
  "only_broken = add_server (server_config ''broken'' ''no-such-command'') \<lparr>servers = []\<rparr>"

definition ex_state_failed :: "heap \<times> DynamicMCPClient" where
  "ex_state_failed = snd (initialize ex_world (DynamicMCPClient_init empty_heap only_broken))"


text \<open>Two servers that offer, beside \<open>add\<close>, a tool whose name is the number 5, one naming
  it first and one last, and the registry after \<^verbatim>\<open>initialize\<close> on each of them.\<close>

definition numbered_entry :: json where
  "numbered_entry = JObj [(''name'', JInt 5), (''description'', JStr ''Five'')]"

definition ex_world_numbered :: world where
  "ex_world_numbered =
     ex_world\<lparr>launches :=
       (\<lambda>key. if key = ''five_first''
              then launch_of (Inr (quiet_process
                     (handshake_lines [numbered_entry, tool_entry ''add'' ''Add two numbers''])))
              else launch_of (Inr (quiet_process
                     (handshake_lines [tool_entry ''add'' ''Add two numbers'', numbered_entry]))))\<rparr>"

definition ex_state_five_first :: "heap \<times> DynamicMCPClient" where
  "ex_state_five_first =
     snd (initialize ex_world_numbered
            (DynamicMCPClient_init empty_heap
               (add_server (server_config ''five_first'' ''python'') \<lparr>servers = []\<rparr>)))"

definition ex_state_add_first :: "heap \<times> DynamicMCPClient" where
  "ex_state_add_first =
     snd (initialize ex_world_numbered
            (DynamicMCPClient_init empty_heap
               (add_server (server_config ''add_first'' ''python'') \<lparr>servers = []\<rparr>)))"

text \<open>A runtime whose \<^verbatim>\<open>str.lower\<close> also knows the capital letters of Latin-1, a server
  that offers the tool \<open>e_tool\<close> spelled with an acute accent on its first letter, and the
  registry after \<^verbatim>\<open>initialize\<close> on it.\<close>

definition lower_latin1_char :: "char \<Rightarrow> char" where
  "lower_latin1_char c =
     (let n = (of_char c :: nat)
      in if (65 \<le> n \<and> n \<le> 90) \<or> (192 \<le> n \<and> n \<le> 222 \<and> n \<noteq> 215) then char_of (n + 32)
         else c)"

definition ex_world_latin1 :: world where
  "ex_world_latin1 =
     ex_world\<lparr>runtime := ex_runtime\<lparr>str_lower := map lower_latin1_char\<rparr>,
              launches :=
                (\<lambda>key. launch_of (Inr (quiet_process
                    (handshake_lines [tool_entry (CHR 0xE9 # ''_tool'') ''A tool''])))) \<rparr>"

definition ex_state_latin1 :: "heap \<times> DynamicMCPClient" where
  "ex_state_latin1 =
     snd (initialize ex_world_latin1
            (DynamicMCPClient_init empty_heap
               (add_server (server_config ''accents'' ''python'') \<lparr>servers = []\<rparr>)))"

section \<open>Evaluation of the scenarios\<close>

lemmas ex_defs = quiet_process_def result_message_def text_item_def
  ex_roots_request_def ex_ping_request_def ex_log_message_def ex_empty_method_def
  ex_colliding_request_def ex_call_reply_def ex_add_call_def tool_entry_def handshake_lines_def
  math_server_def file_server_def launch_of_def ex_world_def server_config_def empty_heap_def
  three_servers_def default_like_def ex_tool_def ex_handshake_written_def
  ex_math_connection_def ex_file_connection_def

lemmas model_defs = has_key_def py_get_def py_get_default_def dict_update_def proc_write_def
  server_request_reply_def handle_server_request_def is_server_request_def send_request_def
  send_notification_def init_request_def initialized_notification_def list_request_def
  call_request_def tool_of_json_def resource_of_json_def listed_items_def
  discover_capabilities_def terminate_def connect_stdio_def connect_def
  interpret_call_response_def call_tool_def disconnect_def MCPServerConnection_init_def
  get_enabled_servers_def add_server_def create_default_config_def DynamicMCPClient_init_def
  register_connections_def aggregate_def

lemma ex_connect_math:
  "connect ex_world (launch_of (Inr math_server)) (MCPServerConnection_init (server_config n ''python''))
     = (True, ex_math_connection n)"
  by (simp add: ex_defs model_defs Let_def)

lemma ex_connect_file:
  "connect ex_world (launch_of (Inr file_server)) (MCPServerConnection_init (server_config ''filesystem'' ''npx''))
     = (True, ex_file_connection)"
  by (simp add: ex_defs model_defs Let_def)

lemma ex_connect_broken:
  "connect ex_world (launch_of (Inl OSError)) (MCPServerConnection_init cfg)
     = (False, MCPServerConnection_init cfg)"
  by (simp add: launch_of_def connect_def connect_stdio_def MCPServerConnection_init_def Let_def)

lemma ex_launches:
  "launches ex_world ''math'' = launch_of (Inr math_server)"
  "launches ex_world ''broken'' = launch_of (Inl OSError)"
  "launches ex_world ''filesystem'' = launch_of (Inr file_server)"
  "launches ex_world ''weather'' = launch_of (Inr math_server)"
  "launches ex_world ''math_tool'' = launch_of (Inr math_server)"
  by (simp_all add: ex_world_def)

lemma server_config_sel:
  "name (server_config n cmd) = n"
  "enabled (server_config n cmd)"
  by (simp_all add: server_config_def)

lemma ex_state_eval:
  "tool_dicts (fst ex_state) (available_tools (snd ex_state))
     = [(KStr ''add'', ex_tool ''add'' ''Add two numbers'' ''math''),
        (KStr ''sub'', ex_tool ''sub'' ''Subtract two numbers'' ''math''),
        (KStr ''list_files'', ex_tool ''list_files'' ''List a directory'' ''filesystem'')]"
  "server_connections (snd ex_state)
     = [(''math'', ex_math_connection ''math''),
        (''broken'', MCPServerConnection_init (server_config ''broken'' ''no-such-command'')),
        (''filesystem'', ex_file_connection)]"
  unfolding ex_state_def
   apply (simp_all add: three_servers_def add_server_def get_enabled_servers_def
        register_connections_def DynamicMCPClient_init_def empty_heap_def Let_def
        ex_launches ex_connect_math ex_connect_file ex_connect_broken server_config_sel)
   apply (simp_all add: aggregate_def dict_update_def ex_math_connection_def
        ex_file_connection_def MCPServerConnection_init_def split_beta)
  done

lemma ex_state_default_eval:
  "tool_dicts (fst ex_state_default) (available_tools (snd ex_state_default))
     = [(KStr ''add'', ex_tool ''add'' ''Add two numbers'' ''My Math Tool''),
        (KStr ''sub'', ex_tool ''sub'' ''Subtract two numbers'' ''My Math Tool'')]"
  "server_connections (snd ex_state_default)
     = [(''weather'', ex_math_connection ''weather''),
        (''math_tool'', ex_math_connection ''My Math Tool'')]"
  unfolding ex_state_default_def
   apply (simp_all add: default_like_def create_default_config_def
        get_enabled_servers_def register_connections_def DynamicMCPClient_init_def
        empty_heap_def Let_def ex_launches ex_connect_math server_config_sel)
   apply (simp_all add: aggregate_def dict_update_def ex_math_connection_def split_beta)
  done

section \<open>Routing of a tool call by the registry\<close>

text \<open>
  C1.  For every tool name and parameter map, \<open>execute_tool\<close> returns
  \<open>(False, "Tool <name> not found")\<close> when the name is absent from the aggregated catalog;
  it returns \<open>(False, "Server <server> not connected")\<close> when the name is present but the
  connection map has no connection under the server name of the tool, or that connection is not
  initialized; otherwise it returns the pair that \<open>call_tool\<close> of that connection produces,
  unchanged.  In particular, with only \<open>add\<close> and \<open>sub\<close> in the catalog, \<open>multiply\<close> yields
  \<open>(False, "Tool multiply not found")\<close>.
\<close>

theorem execute_tool_result:
  "(map_of (tool_dicts h (available_tools r)) (KStr tool_name) = None \<longrightarrow>
      execute_tool w uid (h, r) tool_name parameters
        = ((False, ''Tool '' @ tool_name @ '' not found''), r))
   \<and> (\<forall>tool. map_of (tool_dicts h (available_tools r)) (KStr tool_name) = Some tool \<longrightarrow>
        ((map_of (server_connections r) (t_server_name tool) = None
            \<or> (\<exists>c. map_of (server_connections r) (t_server_name tool) = Some c
                    \<and> \<not> conn_initialized c)) \<longrightarrow>
          execute_tool w uid (h, r) tool_name parameters
            = ((False, ''Server '' @ t_server_name tool @ '' not connected''), r))
        \<and> (\<forall>c. map_of (server_connections r) (t_server_name tool) = Some c
                  \<and> conn_initialized c \<longrightarrow>
              fst (execute_tool w uid (h, r) tool_name parameters)
                = fst (call_tool (runtime w) uid tool_name parameters c)))
   \<and> (set (map fst (tool_dicts h (available_tools r))) = {KStr ''add'', KStr ''sub''} \<longrightarrow>
        execute_tool w uid (h, r) ''multiply'' parameters
          = ((False, ''Tool multiply not found''), r))"
proof (intro conjI allI impI)
  assume "map_of (tool_dicts h (available_tools r)) (KStr tool_name) = None"
  then show "execute_tool w uid (h, r) tool_name parameters
        = ((False, ''Tool '' @ tool_name @ '' not found''), r)"
    by simp
next
  fix tool
  assume "map_of (tool_dicts h (available_tools r)) (KStr tool_name) = Some tool"
    and "map_of (server_connections r) (t_server_name tool) = None
            \<or> (\<exists>c. map_of (server_connections r) (t_server_name tool) = Some c
                    \<and> \<not> conn_initialized c)"
  then show "execute_tool w uid (h, r) tool_name parameters
            = ((False, ''Server '' @ t_server_name tool @ '' not connected''), r)"
    by auto
next
  fix tool c
  assume "map_of (tool_dicts h (available_tools r)) (KStr tool_name) = Some tool"
    and "map_of (server_connections r) (t_server_name tool) = Some c \<and> conn_initialized c"
  then show "fst (execute_tool w uid (h, r) tool_name parameters)
                = fst (call_tool (runtime w) uid tool_name parameters c)"
    by (simp split: prod.splits)
next
  assume keys: "set (map fst (tool_dicts h (available_tools r))) = {KStr ''add'', KStr ''sub''}"
  have "KStr ''multiply'' \<notin> set (map fst (tool_dicts h (available_tools r)))"
    unfolding keys by simp
  then have "map_of (tool_dicts h (available_tools r)) (KStr ''multiply'') = None"
    by (simp add: map_of_eq_None_iff)
  then show "execute_tool w uid (h, r) ''multiply'' parameters
          = ((False, ''Tool multiply not found''), r)"
    by simp
qed

text \<open>The three cases on the registry of the three servers: an unknown name, \<open>add\<close> after the
  connections were disconnected, and \<open>add\<close> on the live math server, which asks for the roots
  before it answers \<open>4\<close>.\<close>

theorem execute_tool_result_witness:
  "execute_tool ex_world ''u-call'' ex_state ''multiply'' (JObj [])
     = ((False, ''Tool multiply not found''), snd ex_state)
   \<and> execute_tool ex_world ''u-call'' ex_state_disconnected ''add'' (JObj [])
     = ((False, ''Server math not connected''), snd ex_state_disconnected)
   \<and> fst (execute_tool ex_world ''u-call'' ex_state ''add'' (JObj [(''a'', JInt 1), (''b'', JInt 3)]))
     = (True, ''4'')
   \<and> set (map fst (tool_dicts (fst ex_state_default) (available_tools (snd ex_state_default))))
     = {KStr ''add'', KStr ''sub''}
   \<and> execute_tool ex_world ''u-call'' ex_state_default ''multiply'' (JObj [])
     = ((False, ''Tool multiply not found''), snd ex_state_default)"
proof -
  let ?add = "ex_tool ''add'' ''Add two numbers'' ''math''"
  let ?args = "JObj [(''a'', JInt 1), (''b'', JInt 3)]"
  have srv: "t_server_name ?add = ''math''"
    by (simp add: ex_tool_def)
  have none: "map_of (tool_dicts (fst ex_state) (available_tools (snd ex_state))) (KStr ''multiply'') = None"
    by (simp add: ex_state_eval)
  have some: "map_of (tool_dicts (fst ex_state) (available_tools (snd ex_state))) (KStr ''add'') = Some ?add"
    by (simp add: ex_state_eval)
  have conn: "map_of (server_connections (snd ex_state)) ''math'' = Some (ex_math_connection ''math'')"
    by (simp add: ex_state_eval)
  have init: "conn_initialized (ex_math_connection ''math'')"
    by (simp add: ex_math_connection_def)
  have call: "fst (call_tool (runtime ex_world) ''u-call'' ''add'' ?args (ex_math_connection ''math''))
                = (True, ''4'')"
    by (simp add: ex_defs model_defs)
  have some': "map_of (tool_dicts (fst ex_state_disconnected)
                   (available_tools (snd ex_state_disconnected))) (KStr ''add'') = Some ?add"
    using some by (simp add: ex_state_disconnected_def)
  have gone: "\<exists>c. map_of (server_connections (snd ex_state_disconnected)) ''math'' = Some c
                  \<and> \<not> conn_initialized c"
    by (simp add: ex_state_disconnected_def ex_state_eval disconnect_def ex_math_connection_def)
  have 1: "execute_tool ex_world ''u-call'' (fst ex_state, snd ex_state) ''multiply'' (JObj [])
             = ((False, ''Tool multiply not found''), snd ex_state)"
    using execute_tool_result [where h = "fst ex_state" and r = "snd ex_state"
        and tool_name = "''multiply''" and w = ex_world and uid = "''u-call''"
        and parameters = "JObj []"] none
    by simp
  have 2: "execute_tool ex_world ''u-call''
              (fst ex_state_disconnected, snd ex_state_disconnected) ''add'' (JObj [])
             = ((False, ''Server math not connected''), snd ex_state_disconnected)"
    using execute_tool_result [where h = "fst ex_state_disconnected"
        and r = "snd ex_state_disconnected"
        and tool_name = "''add''" and w = ex_world and uid = "''u-call''"
        and parameters = "JObj []"] some' gone srv
    by simp
  have 3: "fst (execute_tool ex_world ''u-call'' (fst ex_state, snd ex_state) ''add'' ?args)
             = (True, ''4'')"
    using execute_tool_result [where h = "fst ex_state" and r = "snd ex_state"
        and tool_name = "''add''" and w = ex_world and uid = "''u-call''"
        and parameters = ?args] some conn init call srv
    by simp
  have only: "set (map fst (tool_dicts (fst ex_state_default)
                     (available_tools (snd ex_state_default)))) = {KStr ''add'', KStr ''sub''}"
    by (simp add: ex_state_default_eval)
  from execute_tool_result [where h = "fst ex_state_default" and r = "snd ex_state_default"
        and w = ex_world and uid = "''u-call''" and parameters = "JObj []",
        THEN conjunct2, THEN conjunct2] only
  have 4: "execute_tool ex_world ''u-call'' (fst ex_state_default, snd ex_state_default)
             ''multiply'' (JObj [])
             = ((False, ''Tool multiply not found''), snd ex_state_default)"
    by (rule mp)
  from 1 2 3 only 4 show ?thesis by simp
qed

section \<open>Requests of the server while the client waits\<close>

lemma handle_server_request_open:
  "\<not> stdin_broken p \<Longrightarrow>
     handle_server_request rt m p = p\<lparr>stdin_written := stdin_written p @ [server_request_reply rt m]\<rparr>"
  by (simp add: handle_server_request_def proc_write_def)

lemma wait_response_interleaved:
  assumes "\<not> stdin_broken p"
    and "\<forall>m \<in> set pre. is_server_request m \<or> py_get m ''id'' \<noteq> rid"
    and "\<not> is_server_request resp"
    and "py_get resp ''id'' = rid"
  shows "wait_response rt rid (map (\<lambda>m. Json (JObj m)) pre @ Json (JObj resp) # rest) p
           = (Some resp,
              p\<lparr>stdout_lines := rest,
                stdin_written := stdin_written p
                   @ map (server_request_reply rt) (filter is_server_request pre)\<rparr>)"
  using assms
proof (induction pre arbitrary: p)
  case Nil
  then show ?case by simp
next
  case (Cons m pre)
  show ?case
  proof (cases "is_server_request m")
    case True
    let ?p = "handle_server_request rt m p"
    have open': "\<not> stdin_broken ?p"
      using Cons.prems(1) by (simp add: handle_server_request_open)
    have "wait_response rt rid (map (\<lambda>m. Json (JObj m)) (m # pre) @ Json (JObj resp) # rest) p
            = wait_response rt rid (map (\<lambda>m. Json (JObj m)) pre @ Json (JObj resp) # rest) ?p"
      using True by simp
    also have "\<dots> = (Some resp,
              ?p\<lparr>stdout_lines := rest,
                stdin_written := stdin_written ?p
                   @ map (server_request_reply rt) (filter is_server_request pre)\<rparr>)"
      using Cons.IH [OF open'] Cons.prems by simp
    finally show ?thesis
      using True Cons.prems(1) by (simp add: handle_server_request_open)
  next
    case False
    then have "py_get m ''id'' \<noteq> rid"
      using Cons.prems(2) by simp
    then show ?thesis
      using False Cons.IH [OF Cons.prems(1)] Cons.prems by simp
  qed
qed

text \<open>
  C2, as the code has it.  Let the subprocess accept writes and let it print the objects
  \<open>pre\<close>, none of which is the awaited response, and then \<open>resp\<close>, which is not a request of
  the server and carries the id of the pending request.  A request of the server is an object
  whose \<open>method\<close> is truthy (present, not null, not empty) and which has an \<open>id\<close>, whatever that
  id is.  Then \<open>_send_request\<close> answers every request of the server among \<open>pre\<close>, in the order
  of arrival and before it reads on, skips the other objects unanswered, and returns \<open>resp\<close>
  to its caller.  The answer to \<open>roots/list\<close> is the result \<open>{roots: []}\<close>; the answer to any
  other method is the error with code \<open>-32601\<close>.
\<close>

theorem send_request_answers_server_requests:
  assumes "\<not> stdin_broken p"
    and "stdout_lines p = map (\<lambda>m. Json (JObj m)) pre @ Json (JObj resp) # rest"
    and "\<forall>m \<in> set pre. is_server_request m \<or> py_get m ''id'' \<noteq> py_get request ''id''"
    and "\<not> is_server_request resp"
    and "py_get resp ''id'' = py_get request ''id''"
  shows "send_request rt request (Some p)
           = (Some resp,
              Some (p\<lparr>stdout_lines := rest,
                      stdin_written := stdin_written p @ JObj request
                         # map (server_request_reply rt) (filter is_server_request pre)\<rparr>))
         \<and> (\<forall>m. py_get m ''method'' = JStr ''roots/list'' \<longrightarrow>
                server_request_reply rt m
                  = JObj [(''jsonrpc'', JStr ''2.0''), (''id'', py_get m ''id''),
                          (''result'', JObj [(''roots'', JArr [])])])
         \<and> (\<forall>m. py_get m ''method'' \<noteq> JStr ''roots/list'' \<longrightarrow>
                server_request_reply rt m
                  = JObj [(''jsonrpc'', JStr ''2.0''), (''id'', py_get m ''id''),
                          (''error'', JObj [(''code'', JInt (- 32601)),
                             (''message'', JStr (''Method not found: ''
                                                  @ py_str rt (py_get m ''method'')))])])"
proof -
  let ?p = "p\<lparr>stdin_written := stdin_written p @ [JObj request]\<rparr>"
  have w: "proc_write p (JObj request) = Inr ?p"
    using assms(1) by (simp add: proc_write_def)
  have open': "\<not> stdin_broken ?p"
    using assms(1) by simp
  have "wait_response rt (py_get request ''id'') (stdout_lines ?p) ?p
          = (Some resp,
             ?p\<lparr>stdout_lines := rest,
                stdin_written := stdin_written ?p
                   @ map (server_request_reply rt) (filter is_server_request pre)\<rparr>)"
    using wait_response_interleaved [OF open' assms(3) assms(4) assms(5)] assms(2) by simp
  then have "send_request rt request (Some p)
           = (Some resp,
              Some (p\<lparr>stdout_lines := rest,
                      stdin_written := stdin_written p @ JObj request
                         # map (server_request_reply rt) (filter is_server_request pre)\<rparr>))"
    by (simp add: send_request_def w)
  then show ?thesis
    by (simp add: server_request_reply_def)
qed

text \<open>A call during which the server asks for the roots, sends a request with an unknown
  method and a notification, and then answers.\<close>

theorem send_request_answers_server_requests_witness:
  "send_request ex_runtime ex_add_call
     (Some (quiet_process [Json (JObj ex_roots_request), Json (JObj ex_ping_request),
                           Json (JObj ex_log_message), Json (JObj ex_call_reply)]))
   = (Some ex_call_reply,
      Some ((quiet_process [])\<lparr>stdin_written :=
         [JObj ex_add_call,
          JObj [(''jsonrpc'', JStr ''2.0''), (''id'', JInt 1),
                (''result'', JObj [(''roots'', JArr [])])],
          JObj [(''jsonrpc'', JStr ''2.0''), (''id'', JInt 2),
                (''error'', JObj [(''code'', JInt (- 32601)),
                                  (''message'', JStr ''Method not found: ping'')])]]\<rparr>))"
proof -
  let ?pre = "[ex_roots_request, ex_ping_request, ex_log_message]"
  let ?p = "quiet_process [Json (JObj ex_roots_request), Json (JObj ex_ping_request),
                           Json (JObj ex_log_message), Json (JObj ex_call_reply)]"
  have 1: "\<not> stdin_broken ?p"
    by (simp add: quiet_process_def)
  have 2: "stdout_lines ?p = map (\<lambda>m. Json (JObj m)) ?pre @ Json (JObj ex_call_reply) # []"
    by (simp add: quiet_process_def)
  have 3: "\<forall>m \<in> set ?pre. is_server_request m \<or> py_get m ''id'' \<noteq> py_get ex_add_call ''id''"
    by (simp add: ex_defs model_defs)
  have 4: "\<not> is_server_request ex_call_reply"
    by (simp add: ex_defs model_defs)
  have 5: "py_get ex_call_reply ''id'' = py_get ex_add_call ''id''"
    by (simp add: ex_defs model_defs)
  have requests: "filter is_server_request ?pre = [ex_roots_request, ex_ping_request]"
    by (simp add: ex_defs model_defs)
  have replies: "map (server_request_reply ex_runtime) [ex_roots_request, ex_ping_request]
      = [JObj [(''jsonrpc'', JStr ''2.0''), (''id'', JInt 1),
               (''result'', JObj [(''roots'', JArr [])])],
         JObj [(''jsonrpc'', JStr ''2.0''), (''id'', JInt 2),
               (''error'', JObj [(''code'', JInt (- 32601)),
                                 (''message'', JStr ''Method not found: ping'')])]]"
    by (simp add: ex_defs model_defs)
  from send_request_answers_server_requests [OF 1 2 3 4 5, of ex_runtime]
  show ?thesis
    unfolding requests replies by (simp add: quiet_process_def)
qed

text \<open>
  C2 as the specification words it fails in two places.  A message with an \<open>id\<close> other than the
  pending one and the empty string as its \<open>method\<close> is not answered: the only message written
  is the request of the client.  And a request of the server whose \<open>id\<close> happens to equal the
  pending one is answered like every request of the server, not handed to the caller, who
  receives the later response.
\<close>

theorem send_request_counterexample:
  "has_key ex_empty_method ''method'' \<and> has_key ex_empty_method ''id''
   \<and> py_get ex_empty_method ''id'' \<noteq> py_get ex_add_call ''id''
   \<and> send_request ex_runtime ex_add_call
        (Some (quiet_process [Json (JObj ex_empty_method), Json (JObj ex_call_reply)]))
      = (Some ex_call_reply, Some ((quiet_process [])\<lparr>stdin_written := [JObj ex_add_call]\<rparr>))
   \<and> py_get ex_colliding_request ''id'' = py_get ex_add_call ''id''
   \<and> fst (send_request ex_runtime ex_add_call
        (Some (quiet_process [Json (JObj ex_colliding_request), Json (JObj ex_call_reply)])))
      = Some ex_call_reply
   \<and> ex_call_reply \<noteq> ex_colliding_request"
  by (simp add: ex_defs model_defs)

section \<open>The result of a tool call on one connection\<close>

lemma collect_text_items:
  "list_all2 is_text_item items texts \<Longrightarrow> collect_text items = Inr (map JStr texts)"
proof (induction items texts rule: list_all2_induct)
  case Nil
  then show ?case by simp
next
  case (Cons item items t texts)
  then obtain d where "item = JObj d" "py_get d ''type'' = JStr ''text''"
      "map_of d ''text'' = Some (JStr t)"
    by (cases item) auto
  then show ?case
    using Cons.IH by (simp add: py_get_default_def)
qed

lemma py_join_strings: "py_join (map JStr texts) = Inr (join_lines texts)"
  by (induction texts rule: join_lines.induct) simp_all

lemma interpret_error:
  "map_of m ''error'' = Some (JObj e) \<Longrightarrow>
     interpret_call_response rt (Some m)
       = Inr (False, ''Server error: ''
                @ py_str rt (py_get_default e ''message'' (JStr ''Unknown error'')))"
  by (auto simp: interpret_call_response_def has_key_def py_get_def)

lemma interpret_error_fails:
  "has_key m ''error'' \<Longrightarrow>
     (case interpret_call_response rt (Some m) of Inl e \<Rightarrow> True | Inr r \<Rightarrow> \<not> fst r)"
  by (auto simp: interpret_call_response_def has_key_def split: json.splits)

lemma interpret_content:
  assumes "\<not> has_key m ''error''" "map_of m ''result'' = Some (JObj res)"
    and "map_of res ''content'' = Some (JArr items)" "list_all2 is_text_item items texts"
  shows "interpret_call_response rt (Some m) = Inr (True, join_lines texts)"
proof -
  have "m \<noteq> []" using assms(2) by auto
  then show ?thesis
    using assms
    by (simp add: interpret_call_response_def has_key_def py_get_def
        collect_text_items py_join_strings)
qed

lemma interpret_plain:
  assumes "\<not> has_key m ''error''" "map_of m ''result'' = Some (JObj res)"
    and "\<not> has_key res ''content''"
  shows "interpret_call_response rt (Some m) = Inr (True, dumps_indent2 rt (JObj res))"
proof -
  have "m \<noteq> []" using assms(2) by auto
  then show ?thesis
    using assms by (simp add: interpret_call_response_def has_key_def py_get_def)
qed

lemma interpret_neither:
  assumes "\<not> has_key m ''error''" "\<not> has_key m ''result''"
  shows "\<exists>msg. interpret_call_response rt (Some m) = Inr (False, msg)"
  using assms by (simp add: interpret_call_response_def)

lemma call_tool_fst:
  assumes "conn_initialized c" "has_key (tools c) (KStr tool_name)"
  shows "fst (call_tool rt uid tool_name arguments c)
           = (case interpret_call_response rt
                     (fst (send_request rt (call_request uid tool_name arguments) (process c))) of
                Inl e \<Rightarrow> (False, ''Tool execution error: '' @ exc_text rt e)
              | Inr r \<Rightarrow> r)"
  using assms by (simp add: call_tool_def split: prod.splits sum.splits)

text \<open>
  C3, as the code has it.  \<open>call_tool\<close> fails at once, leaving the connection and its
  subprocess untouched, when the connection is not initialized or does not know the tool.
  Otherwise the response to \<open>tools/call\<close> decides: with an \<open>error\<close> field the call fails, and
  when that field is an object the text is \<open>Server error:\<close> followed by its message; with a
  \<open>result\<close> object whose \<open>content\<close> is a list of text items the call succeeds with the texts
  joined by newlines; with a \<open>result\<close> object that has no \<open>content\<close> the call succeeds with the
  serialised result; with neither \<open>error\<close> nor \<open>result\<close> the call fails.
\<close>

theorem call_tool_result:
  "(\<not> conn_initialized c \<or> \<not> has_key (tools c) (KStr tool_name) \<longrightarrow>
      call_tool rt uid tool_name arguments c
        = ((False, ''Tool '' @ tool_name @ '' not available on server '' @ name (config c)), c))
   \<and> (conn_initialized c \<and> has_key (tools c) (KStr tool_name) \<longrightarrow>
        (\<forall>m. fst (send_request rt (call_request uid tool_name arguments) (process c)) = Some m \<longrightarrow>
           (has_key m ''error'' \<longrightarrow> \<not> fst (fst (call_tool rt uid tool_name arguments c)))
         \<and> (\<forall>e. map_of m ''error'' = Some (JObj e) \<longrightarrow>
                fst (call_tool rt uid tool_name arguments c)
                  = (False, ''Server error: ''
                       @ py_str rt (py_get_default e ''message'' (JStr ''Unknown error''))))
         \<and> (\<forall>res items texts.
                \<not> has_key m ''error'' \<and> map_of m ''result'' = Some (JObj res)
                \<and> map_of res ''content'' = Some (JArr items) \<and> list_all2 is_text_item items texts \<longrightarrow>
                fst (call_tool rt uid tool_name arguments c) = (True, join_lines texts))
         \<and> (\<forall>res. \<not> has_key m ''error'' \<and> map_of m ''result'' = Some (JObj res)
                \<and> \<not> has_key res ''content'' \<longrightarrow>
                fst (call_tool rt uid tool_name arguments c) = (True, dumps_indent2 rt (JObj res)))
         \<and> (\<not> has_key m ''error'' \<and> \<not> has_key m ''result'' \<longrightarrow>
                \<not> fst (fst (call_tool rt uid tool_name arguments c)))))"
proof (intro conjI impI allI)
  assume "\<not> conn_initialized c \<or> \<not> has_key (tools c) (KStr tool_name)"
  then show "call_tool rt uid tool_name arguments c
        = ((False, ''Tool '' @ tool_name @ '' not available on server '' @ name (config c)), c)"
    by (auto simp: call_tool_def)
next
  fix m
  assume ok: "conn_initialized c \<and> has_key (tools c) (KStr tool_name)"
    and m: "fst (send_request rt (call_request uid tool_name arguments) (process c)) = Some m"
  note fst_eq = call_tool_fst [of c tool_name rt uid arguments, unfolded m]
  {
    assume "has_key m ''error''"
    from interpret_error_fails [OF this, of rt]
    show "\<not> fst (fst (call_tool rt uid tool_name arguments c))"
      using ok by (auto simp: fst_eq split: sum.splits)
  next
    fix e
    assume "map_of m ''error'' = Some (JObj e)"
    from interpret_error [OF this, of rt]
    show "fst (call_tool rt uid tool_name arguments c)
            = (False, ''Server error: ''
                 @ py_str rt (py_get_default e ''message'' (JStr ''Unknown error'')))"
      using ok by (simp add: fst_eq)
  next
    fix res items texts
    assume a: "\<not> has_key m ''error'' \<and> map_of m ''result'' = Some (JObj res)
                \<and> map_of res ''content'' = Some (JArr items) \<and> list_all2 is_text_item items texts"
    then have "interpret_call_response rt (Some m) = Inr (True, join_lines texts)"
      by (intro interpret_content) auto
    then show "fst (call_tool rt uid tool_name arguments c) = (True, join_lines texts)"
      using ok by (simp add: fst_eq)
  next
    fix res
    assume a: "\<not> has_key m ''error'' \<and> map_of m ''result'' = Some (JObj res)
                \<and> \<not> has_key res ''content''"
    then have "interpret_call_response rt (Some m) = Inr (True, dumps_indent2 rt (JObj res))"
      by (intro interpret_plain) auto
    then show "fst (call_tool rt uid tool_name arguments c) = (True, dumps_indent2 rt (JObj res))"
      using ok by (simp add: fst_eq)
  next
    assume a: "\<not> has_key m ''error'' \<and> \<not> has_key m ''result''"
    then obtain msg where "interpret_call_response rt (Some m) = Inr (False, msg)"
      using interpret_neither [of m rt] by auto
    then show "\<not> fst (fst (call_tool rt uid tool_name arguments c))"
      using ok by (simp add: fst_eq)
  }
qed

text \<open>The five cases: a connection that was never connected, and the math connection before a
  server that answers with an error, with two text items, with a result without content, and
  with neither.\<close>

theorem call_tool_result_witness:
  "call_tool ex_runtime ''u-call'' ''add'' (JObj [])
       (MCPServerConnection_init (server_config ''math'' ''python''))
     = ((False, ''Tool add not available on server math''),
        MCPServerConnection_init (server_config ''math'' ''python''))
   \<and> fst (call_tool ex_runtime ''u-call'' ''add'' (JObj []) (ex_serving [Json (JObj ex_error_reply)]))
     = (False, ''Server error: division by zero'')
   \<and> fst (call_tool ex_runtime ''u-call'' ''add'' (JObj []) (ex_serving [Json (JObj ex_two_texts)]))
     = (True, ''4'' @ [CHR 0x0A] @ ''done'')
   \<and> fst (call_tool ex_runtime ''u-call'' ''add'' (JObj []) (ex_serving [Json (JObj ex_plain_result)]))
     = (True, dumps_indent2 ex_runtime (JObj [(''sum'', JInt 4)]))
   \<and> \<not> fst (fst (call_tool ex_runtime ''u-call'' ''add'' (JObj [])
                 (ex_serving [Json (JObj ex_bare_reply)])))"
proof -
  let ?req = "call_request ''u-call'' ''add'' (JObj [])"
  have ready: "conn_initialized (ex_serving ls) \<and> has_key (tools (ex_serving ls)) (KStr ''add'')" for ls
    by (simp add: ex_serving_def ex_math_connection_def has_key_def)
  have response: "fst (send_request ex_runtime ?req (process (ex_serving [Json (JObj m)]))) = Some m"
    if "\<not> is_server_request m" "py_get m ''id'' = JStr ''u-call''" for m
    using that
    by (simp add: ex_serving_def quiet_process_def send_request_def proc_write_def
        call_request_def py_get_def)
  have not_request: "\<not> is_server_request ex_error_reply" "\<not> is_server_request ex_two_texts"
      "\<not> is_server_request ex_plain_result" "\<not> is_server_request ex_bare_reply"
    by (simp_all add: is_server_request_def py_get_def ex_error_reply_def ex_two_texts_def
        ex_plain_result_def ex_bare_reply_def result_message_def)
  have ids: "py_get ex_error_reply ''id'' = JStr ''u-call''"
      "py_get ex_two_texts ''id'' = JStr ''u-call''"
      "py_get ex_plain_result ''id'' = JStr ''u-call''"
      "py_get ex_bare_reply ''id'' = JStr ''u-call''"
    by (simp_all add: py_get_def ex_error_reply_def ex_two_texts_def
        ex_plain_result_def ex_bare_reply_def result_message_def)
  have 1: "call_tool ex_runtime ''u-call'' ''add'' (JObj [])
       (MCPServerConnection_init (server_config ''math'' ''python''))
     = ((False, ''Tool add not available on server math''),
        MCPServerConnection_init (server_config ''math'' ''python''))"
  proof -
    have "\<not> conn_initialized (MCPServerConnection_init (server_config ''math'' ''python''))"
      by (simp add: MCPServerConnection_init_def)
    with call_tool_result [of "MCPServerConnection_init (server_config ''math'' ''python'')"
        "''add''" ex_runtime "''u-call''" "JObj []"]
    have "call_tool ex_runtime ''u-call'' ''add'' (JObj [])
       (MCPServerConnection_init (server_config ''math'' ''python''))
     = ((False, ''Tool '' @ ''add'' @ '' not available on server ''
                  @ name (config (MCPServerConnection_init (server_config ''math'' ''python'')))),
        MCPServerConnection_init (server_config ''math'' ''python''))"
      by blast
    then show ?thesis
      by (simp add: MCPServerConnection_init_def server_config_def)
  qed
  have 2: "fst (call_tool ex_runtime ''u-call'' ''add'' (JObj []) (ex_serving [Json (JObj ex_error_reply)]))
     = (False, ''Server error: division by zero'')"
  proof -
    let ?e = "[(''code'', JInt (- 32000)), (''message'', JStr ''division by zero'')]"
    have "map_of ex_error_reply ''error'' = Some (JObj ?e)"
      by (simp add: ex_error_reply_def)
    with call_tool_result [of "ex_serving [Json (JObj ex_error_reply)]"
        "''add''" ex_runtime "''u-call''" "JObj []"]
      ready response [OF not_request(1) ids(1)]
    have "fst (call_tool ex_runtime ''u-call'' ''add'' (JObj []) (ex_serving [Json (JObj ex_error_reply)]))
      = (False, ''Server error: ''
           @ py_str ex_runtime (py_get_default ?e ''message'' (JStr ''Unknown error'')))"
      by blast
    then show ?thesis
      by (simp add: py_get_default_def)
  qed
  have 3: "fst (call_tool ex_runtime ''u-call'' ''add'' (JObj []) (ex_serving [Json (JObj ex_two_texts)]))
     = (True, ''4'' @ [CHR 0x0A] @ ''done'')"
  proof -
    let ?res = "[(''content'', JArr [text_item ''4'', text_item ''done''])]"
    have "\<not> has_key ex_two_texts ''error'' \<and> map_of ex_two_texts ''result'' = Some (JObj ?res)
        \<and> map_of ?res ''content'' = Some (JArr [text_item ''4'', text_item ''done''])
        \<and> list_all2 is_text_item [text_item ''4'', text_item ''done''] [''4'', ''done'']"
      by (simp add: ex_two_texts_def result_message_def has_key_def text_item_def py_get_def)
    with call_tool_result [of "ex_serving [Json (JObj ex_two_texts)]"
        "''add''" ex_runtime "''u-call''" "JObj []"]
      ready response [OF not_request(2) ids(2)]
    have "fst (call_tool ex_runtime ''u-call'' ''add'' (JObj []) (ex_serving [Json (JObj ex_two_texts)]))
      = (True, join_lines [''4'', ''done''])"
      by blast
    then show ?thesis by simp
  qed
  have 4: "fst (call_tool ex_runtime ''u-call'' ''add'' (JObj []) (ex_serving [Json (JObj ex_plain_result)]))
     = (True, dumps_indent2 ex_runtime (JObj [(''sum'', JInt 4)]))"
  proof -
    have "\<not> has_key ex_plain_result ''error''
        \<and> map_of ex_plain_result ''result'' = Some (JObj [(''sum'', JInt 4)])
        \<and> \<not> has_key [(''sum'', JInt 4)] ''content''"
      by (simp add: ex_plain_result_def result_message_def has_key_def)
    with call_tool_result [of "ex_serving [Json (JObj ex_plain_result)]"
        "''add''" ex_runtime "''u-call''" "JObj []"]
      ready response [OF not_request(3) ids(3)]
    have "fst (call_tool ex_runtime ''u-call'' ''add'' (JObj []) (ex_serving [Json (JObj ex_plain_result)]))
      = (True, dumps_indent2 ex_runtime (JObj [(''sum'', JInt 4)]))"
      by blast
    then show ?thesis
      by simp
  qed
  have 5: "\<not> fst (fst (call_tool ex_runtime ''u-call'' ''add'' (JObj [])
                 (ex_serving [Json (JObj ex_bare_reply)])))"
  proof -
    have "\<not> has_key ex_bare_reply ''error'' \<and> \<not> has_key ex_bare_reply ''result''"
      by (simp add: ex_bare_reply_def has_key_def)
    with call_tool_result [of "ex_serving [Json (JObj ex_bare_reply)]"
        "''add''" ex_runtime "''u-call''" "JObj []"]
      ready response [OF not_request(4) ids(4)]
    show ?thesis
      by blast
  qed
  from 1 2 3 4 5 show ?thesis by simp
qed

text \<open>
  C3 as the specification words it fails for a \<open>result\<close> that is not an object.  The response
  \<open>{"jsonrpc": "2.0", "id": "u-call", "result": null}\<close> has a \<open>result\<close> and no \<open>content\<close>,
  but \<^verbatim>\<open>"content" in result\<close> raises on \<^verbatim>\<open>None\<close>, and the handler of \<open>call_tool\<close> turns
  the exception into a failure.
\<close>

theorem call_tool_counterexample:
  "conn_initialized (ex_serving [Json (JObj ex_null_result)])
   \<and> has_key (tools (ex_serving [Json (JObj ex_null_result)])) (KStr ''add'')
   \<and> fst (send_request ex_runtime (call_request ''u-call'' ''add'' (JObj []))
             (process (ex_serving [Json (JObj ex_null_result)]))) = Some ex_null_result
   \<and> has_key ex_null_result ''result'' \<and> \<not> has_key ex_null_result ''error''
   \<and> py_in ''content'' (py_get ex_null_result ''result'') \<noteq> Inr True
   \<and> fst (call_tool ex_runtime ''u-call'' ''add'' (JObj []) (ex_serving [Json (JObj ex_null_result)]))
        = (False, ''Tool execution error: exception'')"
  by (simp add: ex_serving_def ex_null_result_def ex_defs model_defs ex_runtime_def)

section \<open>Dictionaries\<close>

lemma map_of_dict_set: "map_of (dict_set d k v) = (map_of d)(k \<mapsto> v)"
  by (induction d) (auto simp: fun_eq_iff)

lemma set_dict_set: "set (dict_set d k v) \<subseteq> insert (k, v) (set d)"
  by (induction d) (auto split: if_splits)

lemma keys_dict_set:
  "map fst (dict_set d k v) = (if k \<in> set (map fst d) then map fst d else map fst d @ [k])"
proof (induction d)
  case Nil
  then show ?case by simp
next
  case (Cons x d)
  obtain k' v' where x: "x = (k', v')" by (cases x)
  show ?case
    using Cons.IH by (simp add: x)
qed

lemma distinct_dict_set: "distinct (map fst d) \<Longrightarrow> distinct (map fst (dict_set d k v))"
  by (simp add: keys_dict_set)

lemma set_dict_update: "set (dict_update d e) \<subseteq> set d \<union> set e"
  unfolding dict_update_def
proof (induction e arbitrary: d)
  case Nil
  then show ?case by simp
next
  case (Cons x e)
  obtain k v where x: "x = (k, v)" by (cases x)
  show ?case
    using Cons.IH [of "dict_set d k v"] set_dict_set [of d k v] by (auto simp: x)
qed

lemma map_of_dict_update: "map_of (dict_update d e) = map_of d ++ map_of (rev e)"
  unfolding dict_update_def
proof (induction e arbitrary: d)
  case Nil
  then show ?case by simp
next
  case (Cons x e)
  obtain k v where x: "x = (k, v)" by (cases x)
  have "map_of (fold (\<lambda>(k, v) acc. dict_set acc k v) (x # e) d)
          = map_of (dict_set d k v) ++ map_of (rev e)"
    using Cons.IH [of "dict_set d k v"] by (simp add: x)
  also have "\<dots> = map_of d ++ map_of (rev (x # e))"
    by (auto simp: map_of_dict_set x fun_eq_iff map_add_def split: option.splits)
  finally show ?case .
qed

section \<open>Connection attempts\<close>

lemma send_request_keeps_none: "snd (send_request rt request None) = None"
  by (simp add: send_request_def)

lemma discover_capabilities_flag:
  "conn_initialized (snd (discover_capabilities rt u2 u3 c)) = conn_initialized c"
  by (simp add: discover_capabilities_def Let_def split: prod.splits option.splits sum.splits)

lemma connect_flag:
  "conn_initialized (snd (connect w l (MCPServerConnection_init cfg)))
     = fst (connect w l (MCPServerConnection_init cfg))"
proof -
  have flag: "conn_initialized c4 = conn_initialized c3"
    if "discover_capabilities rt u2 u3 c3 = (err, c4)" for rt u2 u3 c3 err c4
    using discover_capabilities_flag [of rt u2 u3 c3] that by simp
  show ?thesis
    by (auto simp: connect_def connect_stdio_def MCPServerConnection_init_def Let_def
        split: sum.splits prod.splits option.splits dest: flag)
qed

lemma attempt_flag: "conn_initialized (snd (attempt w e)) = fst (attempt w e)"
  by (simp add: attempt_def connect_flag)

lemma not_initialized_init: "\<not> conn_initialized (MCPServerConnection_init cfg)"
  by (simp add: MCPServerConnection_init_def)

section \<open>The loops of initialize\<close>

lemma gather_connect_results:
  "fst (gather_connect w es conns) = map (\<lambda>e. fst (attempt w e)) es"
proof (induction es arbitrary: conns)
  case Nil
  then show ?case by simp
next
  case (Cons e es)
  obtain k cfg where e: "e = (k, cfg)" by (cases e)
  have "fst (gather_connect w (e # es) conns)
          = fst (attempt w e) # fst (gather_connect w es (dict_set conns k (snd (attempt w e))))"
    by (simp add: e attempt_def split: prod.splits)
  then show ?case
    using Cons.IH by simp
qed

lemma gather_connect_set:
  "set (snd (gather_connect w es conns))
     \<subseteq> set conns \<union> (\<lambda>e. (fst e, snd (attempt w e))) ` set es"
proof (induction es arbitrary: conns)
  case Nil
  then show ?case by simp
next
  case (Cons e es)
  obtain k cfg where e: "e = (k, cfg)" by (cases e)
  let ?c = "snd (attempt w e)"
  have "snd (gather_connect w (e # es) conns) = snd (gather_connect w es (dict_set conns k ?c))"
    by (simp add: e attempt_def split: prod.splits)
  then show ?case
    using Cons.IH [of "dict_set conns k ?c"] set_dict_set [of conns k ?c]
    by (auto simp: e)
qed

lemma gather_connect_keys:
  "set (map fst es) \<subseteq> set (map fst conns) \<Longrightarrow>
     map fst (snd (gather_connect w es conns)) = map fst conns"
proof (induction es arbitrary: conns)
  case Nil
  then show ?case by simp
next
  case (Cons e es)
  obtain k cfg where e: "e = (k, cfg)" by (cases e)
  let ?c = "snd (attempt w e)"
  have keys: "map fst (dict_set conns k ?c) = map fst conns"
    using Cons.prems by (simp add: keys_dict_set e)
  have "snd (gather_connect w (e # es) conns) = snd (gather_connect w es (dict_set conns k ?c))"
    by (simp add: e attempt_def split: prod.splits)
  then show ?case
    using Cons.IH [of "dict_set conns k ?c"] Cons.prems keys by simp
qed

lemma gather_connect_map_of:
  "map_of (snd (gather_connect w es conns))
     = map_of conns ++ map_of (rev (map (\<lambda>e. (fst e, snd (attempt w e))) es))"
proof (induction es arbitrary: conns)
  case Nil
  then show ?case by simp
next
  case (Cons e es)
  obtain k cfg where e: "e = (k, cfg)" by (cases e)
  let ?c = "snd (attempt w e)"
  have "snd (gather_connect w (e # es) conns) = snd (gather_connect w es (dict_set conns k ?c))"
    by (simp add: e attempt_def split: prod.splits)
  then have "map_of (snd (gather_connect w (e # es) conns))
      = map_of (dict_set conns k ?c) ++ map_of (rev (map (\<lambda>e. (fst e, snd (attempt w e))) es))"
    using Cons.IH [of "dict_set conns k ?c"] by simp
  also have "\<dots> = map_of conns ++ map_of (rev (map (\<lambda>e. (fst e, snd (attempt w e))) (e # es)))"
    by (auto simp: map_of_dict_set e fun_eq_iff map_add_def split: option.splits)
  finally show ?case .
qed

lemma register_connections_set:
  "set (register_connections es conns)
     \<subseteq> set conns \<union> (\<lambda>e. (fst e, MCPServerConnection_init (snd e))) ` set es"
  unfolding register_connections_def
proof (induction es arbitrary: conns)
  case Nil
  then show ?case by simp
next
  case (Cons e es)
  obtain k cfg where e: "e = (k, cfg)" by (cases e)
  show ?case
    using Cons.IH [of "dict_set conns k (MCPServerConnection_init cfg)"]
      set_dict_set [of conns k "MCPServerConnection_init cfg"]
    by (auto simp: e)
qed

lemma register_connections_keys:
  "distinct (map fst es) \<Longrightarrow> set (map fst es) \<inter> set (map fst conns) = {} \<Longrightarrow>
     map fst (register_connections es conns) = map fst conns @ map fst es"
  unfolding register_connections_def
proof (induction es arbitrary: conns)
  case Nil
  then show ?case by simp
next
  case (Cons e es)
  obtain k cfg where e: "e = (k, cfg)" by (cases e)
  have keys: "map fst (dict_set conns k (MCPServerConnection_init cfg)) = map fst conns @ [k]"
    using Cons.prems by (auto simp: keys_dict_set e)
  have "set (map fst es) \<inter> set (map fst (dict_set conns k (MCPServerConnection_init cfg))) = {}"
    using Cons.prems by (auto simp: keys e)
  then show ?case
    using Cons.IH [of "dict_set conns k (MCPServerConnection_init cfg)"] Cons.prems
    by (simp add: e keys)
qed

lemma aggregate_tools_from:
  assumes "(n, t) \<in> set (fst (aggregate conns (ts, rs)))"
  shows "(n, t) \<in> set ts
         \<or> (\<exists>kc \<in> set conns. conn_initialized (snd kc) \<and> (n, t) \<in> set (tools (snd kc)))"
  using assms unfolding aggregate_def
proof (induction conns arbitrary: ts rs)
  case Nil
  then show ?case by simp
next
  case (Cons kc conns)
  obtain k c where kc: "kc = (k, c)" by (cases kc)
  show ?case
  proof (cases "conn_initialized c")
    case True
    then have "(n, t) \<in> set (dict_update ts (tools c))
         \<or> (\<exists>kc \<in> set conns. conn_initialized (snd kc) \<and> (n, t) \<in> set (tools (snd kc)))"
      using Cons.IH [of "dict_update ts (tools c)" "dict_update rs (resources c)"] Cons.prems
      by (simp add: kc)
    then show ?thesis
      using set_dict_update [of ts "tools c"] True by (auto simp: kc)
  next
    case False
    then show ?thesis
      using Cons.IH [of ts rs] Cons.prems by (auto simp: kc)
  qed
qed

lemma aggregate_resources_from:
  assumes "(n, t) \<in> set (snd (aggregate conns (ts, rs)))"
  shows "(n, t) \<in> set rs
         \<or> (\<exists>kc \<in> set conns. conn_initialized (snd kc) \<and> (n, t) \<in> set (resources (snd kc)))"
  using assms unfolding aggregate_def
proof (induction conns arbitrary: ts rs)
  case Nil
  then show ?case by simp
next
  case (Cons kc conns)
  obtain k c where kc: "kc = (k, c)" by (cases kc)
  show ?case
  proof (cases "conn_initialized c")
    case True
    then have "(n, t) \<in> set (dict_update rs (resources c))
         \<or> (\<exists>kc \<in> set conns. conn_initialized (snd kc) \<and> (n, t) \<in> set (resources (snd kc)))"
      using Cons.IH [of "dict_update ts (tools c)" "dict_update rs (resources c)"] Cons.prems
      by (simp add: kc)
    then show ?thesis
      using set_dict_update [of rs "resources c"] True by (auto simp: kc)
  next
    case False
    then show ?thesis
      using Cons.IH [of ts rs] Cons.prems by (auto simp: kc)
  qed
qed

section \<open>What initialize leaves behind\<close>

lemma initialize_fst:
  "fst (initialize w (h, r))
     = (\<exists>e \<in> set (get_enabled_servers (config_manager r)). fst (attempt w e))"
proof -
  let ?es = "get_enabled_servers (config_manager r)"
  let ?g = "gather_connect w ?es (register_connections ?es (server_connections r))"
  have "fst (initialize w (h, r)) = (0 < length (filter (\<lambda>ok. ok) (fst ?g)))"
    by (simp add: Let_def split: prod.splits)
  also have "\<dots> = (\<exists>e \<in> set ?es. fst (attempt w e))"
    by (auto simp: gather_connect_results filter_empty_conv)
  finally show ?thesis .
qed

lemma initialize_client:
  "snd (snd (initialize w (h, r)))
     = r\<lparr>server_connections :=
            snd (gather_connect w (get_enabled_servers (config_manager r))
                   (register_connections (get_enabled_servers (config_manager r))
                      (server_connections r))),
          client_initialized := True,
          initialize_calls := Suc (initialize_calls r)\<rparr>"
  by (simp add: Let_def split: prod.splits)

lemma initialize_heap:
  "tool_dicts (fst (snd (initialize w (h, r)))) (available_tools r)
     = fst (aggregate (snd (gather_connect w (get_enabled_servers (config_manager r))
                              (register_connections (get_enabled_servers (config_manager r))
                                 (server_connections r))))
              (tool_dicts h (available_tools r), resource_dicts h (available_resources r)))"
  "resource_dicts (fst (snd (initialize w (h, r)))) (available_resources r)
     = snd (aggregate (snd (gather_connect w (get_enabled_servers (config_manager r))
                              (register_connections (get_enabled_servers (config_manager r))
                                 (server_connections r))))
              (tool_dicts h (available_tools r), resource_dicts h (available_resources r)))"
  "next_ref (fst (snd (initialize w (h, r)))) = next_ref h"
  by (simp_all add: Let_def split: prod.splits)

declare initialize.simps [simp del]

lemma fresh_client:
  "DynamicMCPClient_init h0 cm = (h, r) \<Longrightarrow>
     config_manager r = cm \<and> server_connections r = [] \<and> \<not> client_initialized r
     \<and> initialize_calls r = 0
     \<and> tool_dicts h (available_tools r) = [] \<and> resource_dicts h (available_resources r) = []
     \<and> available_tools r < next_ref h \<and> available_resources r < next_ref h"
  by (auto simp: DynamicMCPClient_init_def)

lemma initialized_connections_are_attempts:
  assumes "kc \<in> set (snd (gather_connect w es (register_connections es [])))"
    and "conn_initialized (snd kc)"
  shows "\<exists>e \<in> set es. kc = (fst e, snd (attempt w e)) \<and> fst (attempt w e)"
proof -
  from assms(1) gather_connect_set [of w es "register_connections es []"]
    register_connections_set [of es "[]"]
  have "kc \<in> (\<lambda>e. (fst e, MCPServerConnection_init (snd e))) ` set es
        \<or> kc \<in> (\<lambda>e. (fst e, snd (attempt w e))) ` set es"
    by auto
  then show ?thesis
  proof
    assume "kc \<in> (\<lambda>e. (fst e, MCPServerConnection_init (snd e))) ` set es"
    then have "\<not> conn_initialized (snd kc)"
      by (auto simp: not_initialized_init)
    with assms(2) show ?thesis by simp
  next
    assume "kc \<in> (\<lambda>e. (fst e, snd (attempt w e))) ` set es"
    then obtain e where "e \<in> set es" "kc = (fst e, snd (attempt w e))"
      by auto
    with assms(2) show ?thesis
      by (auto simp: attempt_flag)
  qed
qed

lemma aggregate_nothing:
  "\<forall>kc \<in> set conns. \<not> conn_initialized (snd kc) \<Longrightarrow> aggregate conns catalogs = catalogs"
  unfolding aggregate_def
  by (induction conns arbitrary: catalogs) (auto split: prod.splits)

lemma fresh_connections:
  assumes "distinct (map fst es)"
  shows "map fst (snd (gather_connect w es (register_connections es []))) = map fst es"
    and "\<forall>e \<in> set es. map_of (snd (gather_connect w es (register_connections es []))) (fst e)
                         = Some (snd (attempt w e))"
proof -
  have keys: "map fst (register_connections es []) = map fst es"
    using register_connections_keys [OF assms, of "[]"] by simp
  then show "map fst (snd (gather_connect w es (register_connections es []))) = map fst es"
    using gather_connect_keys [of es "register_connections es []" w] by simp
  let ?attempts = "map (\<lambda>e. (fst e, snd (attempt w e))) es"
  have d: "distinct (map fst (rev ?attempts))"
    using assms by (simp add: rev_map [symmetric] comp_def)
  show "\<forall>e \<in> set es. map_of (snd (gather_connect w es (register_connections es []))) (fst e)
                         = Some (snd (attempt w e))"
  proof
    fix e assume "e \<in> set es"
    then have "(fst e, snd (attempt w e)) \<in> set (rev ?attempts)"
      by auto
    then have "map_of (rev ?attempts) (fst e) = Some (snd (attempt w e))"
      using d by (rule map_of_is_SomeI [rotated])
    then show "map_of (snd (gather_connect w es (register_connections es []))) (fst e)
                 = Some (snd (attempt w e))"
      by (simp add: gather_connect_map_of map_add_def)
  qed
qed

lemma attempt_spawn_failure:
  assumes "\<forall>argv environment. \<exists>err. popen (launches w (fst e)) argv environment = Inl err"
  shows "attempt w e = (False, MCPServerConnection_init (snd e))"
proof -
  have no_process: "popen (launches w (fst e)) argv environment \<noteq> Inr p" for argv environment p
    using assms by (metis sum.distinct(1))
  show ?thesis
    by (simp add: attempt_def connect_def connect_stdio_def Let_def no_process
        split: sum.splits)
qed

text \<open>
  C5.  For a configuration whose keys are distinct (it is a dict) and a registry just
  constructed on it, \<open>initialize\<close> registers a connection under every enabled key and leaves
  under each key the outcome of that server's own attempt, whatever the other attempts did; an
  attempt whose subprocess cannot be started fails without an exception; \<open>initialize\<close>
  returns true exactly when some attempt succeeded; every entry of the catalog is a tool of a
  connection whose attempt succeeded; and \<open>execute_tool\<close> for a name that no such connection
  offers (a tool of a failed server only) returns \<open>(False, "Tool <name> not found")\<close>.
\<close>

theorem initialize_partial_failure:
  assumes "distinct (map fst (servers cm))"
    and "initialize w (DynamicMCPClient_init h0 cm) = (ok, h', r')"
  shows "map fst (server_connections r') = map fst (get_enabled_servers cm)
     \<and> (\<forall>e \<in> set (get_enabled_servers cm).
           map_of (server_connections r') (fst e) = Some (snd (attempt w e)))
     \<and> (\<forall>e. (\<forall>argv environment. \<exists>err. popen (launches w (fst e)) argv environment = Inl err)
              \<longrightarrow> attempt w e = (False, MCPServerConnection_init (snd e)))
     \<and> (ok \<longleftrightarrow> (\<exists>e \<in> set (get_enabled_servers cm). fst (attempt w e)))
     \<and> (\<forall>n t. (n, t) \<in> set (tool_dicts h' (available_tools r')) \<longrightarrow>
           (\<exists>e \<in> set (get_enabled_servers cm).
               fst (attempt w e) \<and> (n, t) \<in> set (tools (snd (attempt w e)))))
     \<and> (\<forall>n. (\<forall>e \<in> set (get_enabled_servers cm).
                 fst (attempt w e) \<longrightarrow> KStr n \<notin> fst ` set (tools (snd (attempt w e)))) \<longrightarrow>
           execute_tool w uid (h', r') n parameters = ((False, ''Tool '' @ n @ '' not found''), r'))"
proof -
  obtain h r where fresh: "DynamicMCPClient_init h0 cm = (h, r)"
    by (cases "DynamicMCPClient_init h0 cm")
  note f = fresh_client [OF fresh]
  let ?es = "get_enabled_servers cm"
  let ?conns = "snd (gather_connect w ?es (register_connections ?es []))"
  have init: "initialize w (h, r) = (ok, h', r')"
    using assms(2) fresh by simp
  have d: "distinct (map fst ?es)"
    using assms(1) by (simp add: get_enabled_servers_def distinct_map_filter)
  have r': "r' = r\<lparr>server_connections := ?conns, client_initialized := True,
                   initialize_calls := Suc (initialize_calls r)\<rparr>"
    using initialize_client [of w h r] init f by simp
  have conns: "server_connections r' = ?conns"
    by (simp add: r')
  have ok: "ok \<longleftrightarrow> (\<exists>e \<in> set ?es. fst (attempt w e))"
    using initialize_fst [of w h r] init f by simp
  have catalog: "tool_dicts h' (available_tools r') = fst (aggregate ?conns ([], []))"
    using initialize_heap(1) [of w h r] init f by (simp add: r')
  have from_attempt: "\<exists>e \<in> set ?es. fst (attempt w e) \<and> (n, t) \<in> set (tools (snd (attempt w e)))"
    if "(n, t) \<in> set (tool_dicts h' (available_tools r'))" for n t
  proof -
    from that aggregate_tools_from [of n t ?conns "[]" "[]"]
    obtain kc where kc: "kc \<in> set ?conns" "conn_initialized (snd kc)"
        "(n, t) \<in> set (tools (snd kc))"
      by (auto simp: catalog)
    from initialized_connections_are_attempts [OF kc(1) kc(2)] kc(3)
    show ?thesis by auto
  qed
  have not_found: "execute_tool w uid (h', r') n parameters
                     = ((False, ''Tool '' @ n @ '' not found''), r')"
    if "\<forall>e \<in> set ?es. fst (attempt w e) \<longrightarrow> KStr n \<notin> fst ` set (tools (snd (attempt w e)))" for n
  proof -
    have "KStr n \<notin> fst ` set (tool_dicts h' (available_tools r'))"
    proof
      assume "KStr n \<in> fst ` set (tool_dicts h' (available_tools r'))"
      then obtain t where "(KStr n, t) \<in> set (tool_dicts h' (available_tools r'))"
        by auto
      from from_attempt [OF this] that show False
        by force
    qed
    then have "map_of (tool_dicts h' (available_tools r')) (KStr n) = None"
      by (simp add: map_of_eq_None_iff)
    then show ?thesis by simp
  qed
  have keys: "map fst (server_connections r') = map fst ?es"
    using fresh_connections(1) [OF d, of w] by (simp add: conns)
  have each: "\<forall>e \<in> set ?es. map_of (server_connections r') (fst e) = Some (snd (attempt w e))"
    using fresh_connections(2) [OF d, of w] by (simp add: conns)
  have spawn: "\<forall>e. (\<forall>argv environment. \<exists>err. popen (launches w (fst e)) argv environment = Inl err)
              \<longrightarrow> attempt w e = (False, MCPServerConnection_init (snd e))"
    using attempt_spawn_failure by blast
  have entries: "\<forall>n t. (n, t) \<in> set (tool_dicts h' (available_tools r')) \<longrightarrow>
           (\<exists>e \<in> set ?es. fst (attempt w e) \<and> (n, t) \<in> set (tools (snd (attempt w e))))"
    using from_attempt by blast
  have missing: "\<forall>n. (\<forall>e \<in> set ?es.
                 fst (attempt w e) \<longrightarrow> KStr n \<notin> fst ` set (tools (snd (attempt w e)))) \<longrightarrow>
           execute_tool w uid (h', r') n parameters = ((False, ''Tool '' @ n @ '' not found''), r')"
    using not_found by blast
  from keys each spawn ok entries missing show ?thesis
    by (intro conjI)
qed

text \<open>The three servers of the scenarios: \<open>broken\<close> cannot be started, the other two connect.\<close>

theorem initialize_partial_failure_witness:
  "distinct (map fst (servers three_servers))
   \<and> fst (initialize ex_world (DynamicMCPClient_init empty_heap three_servers))
   \<and> map fst (server_connections (snd ex_state)) = [''math'', ''broken'', ''filesystem'']
   \<and> attempt ex_world (''broken'', server_config ''broken'' ''no-such-command'')
        = (False, MCPServerConnection_init (server_config ''broken'' ''no-such-command''))
   \<and> map fst (tool_dicts (fst ex_state) (available_tools (snd ex_state)))
        = [KStr ''add'', KStr ''sub'', KStr ''list_files'']
   \<and> execute_tool ex_world ''u-call'' ex_state ''broken_tool'' (JObj [])
        = ((False, ''Tool broken_tool not found''), snd ex_state)"
proof -
  let ?I = "initialize ex_world (DynamicMCPClient_init empty_heap three_servers)"
  let ?math = "(''math'', server_config ''math'' ''python'')"
  let ?broken = "(''broken'', server_config ''broken'' ''no-such-command'')"
  let ?files = "(''filesystem'', server_config ''filesystem'' ''npx'')"
  have d: "distinct (map fst (servers three_servers))"
    by (simp add: three_servers_def add_server_def server_config_def)
  have I: "?I = (fst ?I, fst ex_state, snd ex_state)"
    by (simp add: ex_state_def)
  note T = initialize_partial_failure [OF d I, of "''u-call''" "JObj []"]
  have es: "get_enabled_servers three_servers = [?math, ?broken, ?files]"
    by (simp add: three_servers_def add_server_def get_enabled_servers_def server_config_sel)
  have a1: "attempt ex_world ?math = (True, ex_math_connection ''math'')"
    by (simp add: attempt_def ex_launches ex_connect_math)
  have a2: "attempt ex_world ?broken = (False, MCPServerConnection_init (snd ?broken))"
    by (simp add: attempt_def ex_launches ex_connect_broken)
  have a3: "attempt ex_world ?files = (True, ex_file_connection)"
    by (simp add: attempt_def ex_launches ex_connect_file)
  have keys: "map fst (server_connections (snd ex_state)) = [''math'', ''broken'', ''filesystem'']"
    using T [THEN conjunct1] by (simp add: es)
  have ok: "fst ?I"
    using T [THEN conjunct2, THEN conjunct2, THEN conjunct2, THEN conjunct1]
    by (simp add: es a1)
  have no_spawn: "\<forall>argv environment. \<exists>err.
      popen (launches ex_world (fst ?broken)) argv environment = Inl err"
    by (simp add: ex_launches launch_of_def)
  have spawn: "attempt ex_world ?broken
        = (False, MCPServerConnection_init (server_config ''broken'' ''no-such-command''))"
  proof -
    from T [THEN conjunct2, THEN conjunct2, THEN conjunct1]
    have "(\<forall>argv environment. \<exists>err.
             popen (launches ex_world (fst ?broken)) argv environment = Inl err)
          \<longrightarrow> attempt ex_world ?broken = (False, MCPServerConnection_init (snd ?broken))"
      by (rule spec)
    from this no_spawn
    have "attempt ex_world ?broken = (False, MCPServerConnection_init (snd ?broken))"
      by (rule mp)
    then show ?thesis by simp
  qed
  have unknown: "\<forall>e \<in> set (get_enabled_servers three_servers).
      fst (attempt ex_world e) \<longrightarrow> KStr ''broken_tool'' \<notin> fst ` set (tools (snd (attempt ex_world e)))"
    by (simp add: es a1 a2 a3 ex_math_connection_def ex_file_connection_def)
  have missing: "execute_tool ex_world ''u-call'' (fst ex_state, snd ex_state) ''broken_tool'' (JObj [])
        = ((False, ''Tool broken_tool not found''), snd ex_state)"
  proof -
    from T [THEN conjunct2, THEN conjunct2, THEN conjunct2, THEN conjunct2, THEN conjunct2]
    have "(\<forall>e \<in> set (get_enabled_servers three_servers).
             fst (attempt ex_world e)
             \<longrightarrow> KStr ''broken_tool'' \<notin> fst ` set (tools (snd (attempt ex_world e))))
          \<longrightarrow> execute_tool ex_world ''u-call'' (fst ex_state, snd ex_state) ''broken_tool'' (JObj [])
                = ((False, ''Tool '' @ ''broken_tool'' @ '' not found''), snd ex_state)"
      by (rule spec)
    from this unknown
    have "execute_tool ex_world ''u-call'' (fst ex_state, snd ex_state) ''broken_tool'' (JObj [])
                = ((False, ''Tool '' @ ''broken_tool'' @ '' not found''), snd ex_state)"
      by (rule mp)
    then show ?thesis by simp
  qed
  have catalog: "map fst (tool_dicts (fst ex_state) (available_tools (snd ex_state)))
        = [KStr ''add'', KStr ''sub'', KStr ''list_files'']"
    by (simp add: ex_state_eval)
  from d ok keys spawn catalog missing show ?thesis
    by simp
qed

section \<open>Initialization that connects no server\<close>

lemma initialize_all_failed:
  assumes "\<not> fst (initialize w (DynamicMCPClient_init h0 cm))"
  shows "tool_dicts (fst (snd (initialize w (DynamicMCPClient_init h0 cm))))
           (available_tools (snd (snd (initialize w (DynamicMCPClient_init h0 cm))))) = []"
    and "resource_dicts (fst (snd (initialize w (DynamicMCPClient_init h0 cm))))
           (available_resources (snd (snd (initialize w (DynamicMCPClient_init h0 cm))))) = []"
proof -
  obtain h r where fresh: "DynamicMCPClient_init h0 cm = (h, r)"
    by (cases "DynamicMCPClient_init h0 cm")
  note f = fresh_client [OF fresh]
  let ?es = "get_enabled_servers cm"
  let ?conns = "snd (gather_connect w ?es (register_connections ?es []))"
  have none: "\<forall>e \<in> set ?es. \<not> fst (attempt w e)"
    using assms initialize_fst [of w h r] f by (simp add: fresh)
  have "\<forall>kc \<in> set ?conns. \<not> conn_initialized (snd kc)"
    using initialized_connections_are_attempts [of _ w ?es] none by blast
  then have agg: "aggregate ?conns ([], []) = ([], [])"
    by (rule aggregate_nothing)
  have addr: "available_tools (snd (snd (initialize w (h, r)))) = available_tools r"
      "available_resources (snd (snd (initialize w (h, r)))) = available_resources r"
    by (simp_all add: initialize_client)
  show "tool_dicts (fst (snd (initialize w (DynamicMCPClient_init h0 cm))))
           (available_tools (snd (snd (initialize w (DynamicMCPClient_init h0 cm))))) = []"
    using initialize_heap(1) [of w h r] f agg by (simp add: fresh addr)
  show "resource_dicts (fst (snd (initialize w (DynamicMCPClient_init h0 cm))))
           (available_resources (snd (snd (initialize w (DynamicMCPClient_init h0 cm))))) = []"
    using initialize_heap(2) [of w h r] f agg by (simp add: fresh addr)
qed

lemma initialize_flag: "client_initialized (snd (snd (initialize w (h, r))))"
  by (simp add: initialize_client)

lemma getter_when_initialized:
  assumes "client_initialized r"
  shows "get_available_tools w (h, r)
           = (next_ref h,
              h\<lparr>tool_dicts := (tool_dicts h)(next_ref h := tool_dicts h (available_tools r)),
                next_ref := Suc (next_ref h)\<rparr>,
              r)"
    and "get_available_resources w (h, r)
           = (next_ref h,
              h\<lparr>resource_dicts := (resource_dicts h)(next_ref h := resource_dicts h (available_resources r)),
                next_ref := Suc (next_ref h)\<rparr>,
              r)"
  using assms by (simp_all add: Let_def)

text \<open>
  C10.  \<open>initialize\<close> always sets the initialized flag of the registry, also when it returns
  false, which it does exactly when no connection attempt succeeded.  On a registry just
  constructed, after an \<open>initialize\<close> that returned false, each getter leaves the registry as it
  is (it does not run \<open>initialize\<close> again: the count of its runs stays at one) and returns an
  empty catalog.
\<close>

theorem initialize_sets_flag_when_all_fail:
  "client_initialized (snd (snd (initialize w (h, r))))
   \<and> (fst (initialize w (h, r))
        \<longleftrightarrow> (\<exists>e \<in> set (get_enabled_servers (config_manager r)). fst (attempt w e)))
   \<and> (\<not> fst (initialize w (DynamicMCPClient_init h0 cm)) \<longrightarrow>
        (let s = snd (initialize w (DynamicMCPClient_init h0 cm))
         in client_initialized (snd s)
            \<and> initialize_calls (snd s) = 1
            \<and> snd (snd (get_available_tools w s)) = snd s
            \<and> tool_dicts (fst (snd (get_available_tools w s))) (fst (get_available_tools w s)) = []
            \<and> snd (snd (get_available_resources w s)) = snd s
            \<and> resource_dicts (fst (snd (get_available_resources w s)))
                 (fst (get_available_resources w s)) = []))"
proof (intro conjI impI)
  show "client_initialized (snd (snd (initialize w (h, r))))"
    by (rule initialize_flag)
  show "fst (initialize w (h, r))
        \<longleftrightarrow> (\<exists>e \<in> set (get_enabled_servers (config_manager r)). fst (attempt w e))"
    by (rule initialize_fst)
next
  assume failed: "\<not> fst (initialize w (DynamicMCPClient_init h0 cm))"
  obtain h1 r1 where fresh: "DynamicMCPClient_init h0 cm = (h1, r1)"
    by (cases "DynamicMCPClient_init h0 cm")
  obtain h2 r2 where s: "snd (initialize w (DynamicMCPClient_init h0 cm)) = (h2, r2)"
    by (cases "snd (initialize w (DynamicMCPClient_init h0 cm))")
  have flag: "client_initialized r2"
    using initialize_flag [of w h1 r1] s by (simp add: fresh)
  have calls: "initialize_calls r2 = 1"
    using initialize_client [of w h1 r1] s fresh_client [OF fresh] by (simp add: fresh)
  have empty: "tool_dicts h2 (available_tools r2) = []" "resource_dicts h2 (available_resources r2) = []"
    using initialize_all_failed [OF failed] s by simp_all
  show "let s = snd (initialize w (DynamicMCPClient_init h0 cm))
         in client_initialized (snd s)
            \<and> initialize_calls (snd s) = 1
            \<and> snd (snd (get_available_tools w s)) = snd s
            \<and> tool_dicts (fst (snd (get_available_tools w s))) (fst (get_available_tools w s)) = []
            \<and> snd (snd (get_available_resources w s)) = snd s
            \<and> resource_dicts (fst (snd (get_available_resources w s)))
                 (fst (get_available_resources w s)) = []"
    unfolding s Let_def
    using flag calls empty by (simp add: Let_def)
qed

text \<open>The configuration whose only server cannot be started.\<close>

theorem initialize_sets_flag_when_all_fail_witness:
  "\<not> fst (initialize ex_world (DynamicMCPClient_init empty_heap only_broken))
   \<and> client_initialized (snd ex_state_failed)
   \<and> initialize_calls (snd ex_state_failed) = 1
   \<and> snd (snd (get_available_tools ex_world ex_state_failed)) = snd ex_state_failed
   \<and> tool_dicts (fst (snd (get_available_tools ex_world ex_state_failed)))
        (fst (get_available_tools ex_world ex_state_failed)) = []
   \<and> snd (snd (get_available_resources ex_world ex_state_failed)) = snd ex_state_failed
   \<and> resource_dicts (fst (snd (get_available_resources ex_world ex_state_failed)))
        (fst (get_available_resources ex_world ex_state_failed)) = []"
proof -
  let ?init = "DynamicMCPClient_init empty_heap only_broken"
  let ?broken = "(''broken'', server_config ''broken'' ''no-such-command'')"
  note T = initialize_sets_flag_when_all_fail
             [of ex_world "fst ?init" "snd ?init" empty_heap only_broken]
  have cm: "config_manager (snd ?init) = only_broken"
    by (simp add: DynamicMCPClient_init_def)
  have es: "get_enabled_servers only_broken = [?broken]"
    by (simp add: only_broken_def add_server_def get_enabled_servers_def server_config_sel)
  have a: "attempt ex_world ?broken = (False, MCPServerConnection_init (snd ?broken))"
    by (simp add: attempt_def ex_launches ex_connect_broken)
  have failed: "\<not> fst (initialize ex_world ?init)"
    using T [THEN conjunct2, THEN conjunct1] by (simp add: cm es a)
  from T [THEN conjunct2, THEN conjunct2] failed
  have "let s = snd (initialize ex_world ?init)
         in client_initialized (snd s)
            \<and> initialize_calls (snd s) = 1
            \<and> snd (snd (get_available_tools ex_world s)) = snd s
            \<and> tool_dicts (fst (snd (get_available_tools ex_world s)))
                 (fst (get_available_tools ex_world s)) = []
            \<and> snd (snd (get_available_resources ex_world s)) = snd s
            \<and> resource_dicts (fst (snd (get_available_resources ex_world s)))
                 (fst (get_available_resources ex_world s)) = []"
    by (rule mp)
  then show ?thesis
    using failed unfolding Let_def ex_state_failed_def by (intro conjI) simp_all
qed

section \<open>The getters of the registry\<close>









section \<open>Cleanup and disconnect\<close>

lemma disconnect_result:
  "process (snd (disconnect c)) = None"
  "\<not> conn_initialized (snd (disconnect c))"
  by (simp_all add: disconnect_def split: option.splits)

lemma disconnect_twice: "disconnect (snd (disconnect c)) = (None, snd (disconnect c))"
  by (simp add: disconnect_def split: option.splits)

lemma disconnect_signals:
  "process c = Some p \<Longrightarrow>
     \<exists>p'. fst (disconnect c) = Some p' \<and> SIGTERM \<in> set (signals p')"
  by (simp add: disconnect_def terminate_def)

text \<open>
  C9.  \<open>cleanup\<close> disconnects every connection of the map: each is left without a
  subprocess handle and with its initialized flag cleared.  After it the connection map and
  both catalogs are empty and the initialized flag of the registry is false.  \<open>disconnect\<close>
  clears the flag of the connection, sends the subprocess the termination signal if there is
  one, and a second \<open>disconnect\<close> changes nothing; neither has an exceptional outcome.
\<close>

theorem cleanup_clears_everything:
  "(let c = cleanup (h, r); h' = fst (snd c); r' = snd (snd c)
    in fst c = map (\<lambda>kc. disconnect (snd kc)) (server_connections r)
       \<and> (\<forall>pc \<in> set (fst c). process (snd pc) = None \<and> \<not> conn_initialized (snd pc))
       \<and> server_connections r' = []
       \<and> tool_dicts h' (available_tools r') = []
       \<and> resource_dicts h' (available_resources r') = []
       \<and> \<not> client_initialized r')
   \<and> \<not> conn_initialized (snd (disconnect conn))
   \<and> (\<forall>p. process conn = Some p \<longrightarrow>
         (\<exists>p'. fst (disconnect conn) = Some p' \<and> SIGTERM \<in> set (signals p')))
   \<and> disconnect (snd (disconnect conn)) = (None, snd (disconnect conn))"
proof -
  have "map (\<lambda>(server_name, connection). disconnect connection) (server_connections r)
          = map (\<lambda>kc. disconnect (snd kc)) (server_connections r)"
    by (simp add: split_beta)
  then show ?thesis
    using disconnect_signals [of conn]
    by (auto simp: Let_def disconnect_result disconnect_twice)
qed

text \<open>Cleanup of the registry of the three servers.\<close>

theorem cleanup_clears_everything_witness:
  "map (\<lambda>pc. (process (snd pc), conn_initialized (snd pc))) (fst (cleanup ex_state))
     = [(None, False), (None, False), (None, False)]
   \<and> server_connections (snd (snd (cleanup ex_state))) = []
   \<and> tool_dicts (fst (snd (cleanup ex_state))) (available_tools (snd (snd (cleanup ex_state)))) = []
   \<and> \<not> client_initialized (snd (snd (cleanup ex_state)))
   \<and> process (ex_math_connection ''math'') \<noteq> None
   \<and> fst (disconnect (ex_math_connection ''math'')) \<noteq> None
   \<and> disconnect (snd (disconnect (ex_math_connection ''math'')))
        = (None, snd (disconnect (ex_math_connection ''math'')))"
proof -
  note T = cleanup_clears_everything [of "fst ex_state" "snd ex_state" "ex_math_connection ''math''"]
  have p: "process (ex_math_connection ''math'') \<noteq> None"
    by (simp add: ex_math_connection_def)
  then obtain p0 where p0: "process (ex_math_connection ''math'') = Some p0"
    by auto
  from T [THEN conjunct2, THEN conjunct2, THEN conjunct1] p0
  have s: "fst (disconnect (ex_math_connection ''math'')) \<noteq> None"
    by auto
  from T [THEN conjunct1]
  have c: "fst (cleanup ex_state) = map (\<lambda>kc. disconnect (snd kc)) (server_connections (snd ex_state))
       \<and> (\<forall>pc \<in> set (fst (cleanup ex_state)). process (snd pc) = None \<and> \<not> conn_initialized (snd pc))
       \<and> server_connections (snd (snd (cleanup ex_state))) = []
       \<and> tool_dicts (fst (snd (cleanup ex_state))) (available_tools (snd (snd (cleanup ex_state)))) = []
       \<and> resource_dicts (fst (snd (cleanup ex_state)))
            (available_resources (snd (snd (cleanup ex_state)))) = []
       \<and> \<not> client_initialized (snd (snd (cleanup ex_state)))"
    by (simp add: Let_def del: cleanup.simps)
  then have len: "length (fst (cleanup ex_state)) = 3"
    by (simp add: ex_state_eval del: cleanup.simps)
  then obtain a b d where abd: "fst (cleanup ex_state) = [a, b, d]"
    by (auto simp: length_Suc_conv numeral_3_eq_3 simp del: cleanup.simps)
  have each: "map (\<lambda>pc. (process (snd pc), conn_initialized (snd pc))) (fst (cleanup ex_state))
     = [(None, False), (None, False), (None, False)]"
  proof -
    from c have "\<forall>pc \<in> set (fst (cleanup ex_state)).
        process (snd pc) = None \<and> \<not> conn_initialized (snd pc)"
      by (rule conjunct2 [THEN conjunct1])
    then show ?thesis
      unfolding abd by simp
  qed
  from c each p s T [THEN conjunct2, THEN conjunct2, THEN conjunct2]
  show ?thesis
    by (simp del: cleanup.simps)
qed

section \<open>The capability heuristic\<close>

lemma str_contains_sublist: "str_contains s p \<longleftrightarrow> sublist p s"
  by (induction s) (simp_all add: sublist_Cons_right)

lemma str_contains_occurs: "str_contains s p \<longleftrightarrow> (\<exists>before after. s = before @ p @ after)"
  by (simp add: str_contains_sublist sublist_def)

lemma known_topics:
  "dom (map_of capability_patterns)
     = {''weather'', ''math'', ''search'', ''filesystem'', ''database'', ''usda'', ''food'',
        ''nutrition''}"
  by (auto simp: capability_patterns_def dom_def split: if_splits)

lemma name_matches_string:
  "name_matches rt (KStr s) patterns
     = Inr (\<exists>pattern \<in> set patterns. sublist pattern (str_lower rt s))"
  by (induction patterns) (simp_all add: str_contains_sublist)

lemma any_name_matches_strings:
  assumes "\<forall>k \<in> set ks. \<exists>s. k = KStr s"
  shows "any_name_matches rt ks patterns
           = Inr (\<exists>s. KStr s \<in> set ks
                     \<and> (\<exists>pattern \<in> set patterns. sublist pattern (str_lower rt s)))"
  using assms
proof (induction ks)
  case Nil
  then show ?case by simp
next
  case (Cons k ks)
  then obtain s where k: "k = KStr s" by auto
  from Cons show ?case
    by (auto simp: k name_matches_string)
qed

lemma any_name_contains_strings:
  assumes "\<forall>k \<in> set ks. \<exists>s. k = KStr s"
  shows "any_name_contains rt ks capability_lower
           = Inr (\<exists>s. KStr s \<in> set ks \<and> sublist capability_lower (str_lower rt s))"
  using assms
proof (induction ks)
  case Nil
  then show ?case by simp
next
  case (Cons k ks)
  then obtain s where k: "k = KStr s" by auto
  from Cons show ?case
    by (auto simp: k str_contains_sublist)
qed

lemma has_capability_sets:
  assumes "\<forall>k \<in> fst ` set (tool_dicts h (available_tools r)). \<exists>s. k = KStr s"
  shows "has_capability w (h, r) capability
     = Inr ((\<exists>patterns. map_of capability_patterns (str_lower (runtime w) capability) = Some patterns
              \<and> (\<exists>n \<in> str_lower (runtime w) ` {s. KStr s \<in> fst ` set (tool_dicts h (available_tools r))}.
                    \<exists>pattern \<in> set patterns. sublist pattern n))
          \<or> (\<exists>n \<in> str_lower (runtime w) ` {s. KStr s \<in> fst ` set (tool_dicts h (available_tools r))}.
                 sublist (str_lower (runtime w) capability) n))"
proof -
  have keys: "\<forall>k \<in> set (map fst (tool_dicts h (available_tools r))). \<exists>s. k = KStr s"
    using assms by simp
  show ?thesis
    by (auto simp: Let_def any_name_matches_strings [OF keys] any_name_contains_strings [OF keys]
        split: option.splits)
qed

text \<open>
  C7.  As the specification words it C7 fails: a catalog may hold a tool whose name is not a
  string, and then \<open>has_capability\<close> raises or not depending on the order of the catalog.
  For a catalog whose names are all strings, \<open>has_capability\<close> returns true exactly when the
  lowercased topic is one of the eight known topics (the keys of the table, whose rows are
  listed) and some tool name, lowercased, contains one of the keywords of that topic, or some
  tool name, lowercased, contains the lowercased topic; it returns false otherwise.  The
  result depends on the topic and on the tool names only through their lowercased forms, and
  on the catalog only through the set of its names, not their order.
\<close>

theorem has_capability_characterisation:
  assumes "\<forall>k \<in> fst ` set (tool_dicts h (available_tools r)). \<exists>s. k = KStr s"
  shows "has_capability w (h, r) capability
      = Inr ((str_lower (runtime w) capability
                \<in> {''weather'', ''math'', ''search'', ''filesystem'', ''database'',
                    ''usda'', ''food'', ''nutrition''}
              \<and> (\<exists>patterns.
                    map_of capability_patterns (str_lower (runtime w) capability) = Some patterns
                    \<and> (\<exists>tool_name. KStr tool_name \<in> fst ` set (tool_dicts h (available_tools r))
                          \<and> (\<exists>pattern \<in> set patterns.
                                sublist pattern (str_lower (runtime w) tool_name)))))
           \<or> (\<exists>tool_name. KStr tool_name \<in> fst ` set (tool_dicts h (available_tools r))
                  \<and> sublist (str_lower (runtime w) capability) (str_lower (runtime w) tool_name)))
   \<and> dom (map_of capability_patterns)
        = {''weather'', ''math'', ''search'', ''filesystem'', ''database'', ''usda'', ''food'',
           ''nutrition''}
   \<and> map_of capability_patterns ''weather''
        = Some [''forecast'', ''weather'', ''alerts'', ''temperature'', ''climate'']
   \<and> map_of capability_patterns ''math''
        = Some [''add'', ''sub'', ''multiply'', ''calculate'', ''solve'', ''equation'']
   \<and> map_of capability_patterns ''search'' = Some [''search'', ''find'', ''lookup'']
   \<and> map_of capability_patterns ''filesystem''
        = Some [''list_files'', ''read_file'', ''write_file'', ''file'']
   \<and> map_of capability_patterns ''database'' = Some [''query'', ''table'', ''sql'', ''database'']
   \<and> map_of capability_patterns ''usda'' = Some [''food'', ''nutrition'', ''usda'']
   \<and> map_of capability_patterns ''food'' = Some [''food'', ''nutrition'', ''usda'']
   \<and> map_of capability_patterns ''nutrition'' = Some [''food'', ''nutrition'', ''usda'']
   \<and> ((\<forall>k \<in> fst ` set (tool_dicts h' (available_tools r')). \<exists>s. k = KStr s)
        \<and> str_lower (runtime w) capability = str_lower (runtime w) capability'
        \<and> str_lower (runtime w) ` {s. KStr s \<in> fst ` set (tool_dicts h (available_tools r))}
            = str_lower (runtime w) ` {s. KStr s \<in> fst ` set (tool_dicts h' (available_tools r'))}
        \<longrightarrow> has_capability w (h, r) capability = has_capability w (h', r') capability')"
proof -
  let ?topics = "{''weather'', ''math'', ''search'', ''filesystem'', ''database'', ''usda'',
                  ''food'', ''nutrition''}"
  have known: "str_lower (runtime w) capability \<in> ?topics"
    if "map_of capability_patterns (str_lower (runtime w) capability) = Some patterns" for patterns
    using that known_topics by blast
  have main: "has_capability w (h, r) capability
      = Inr ((str_lower (runtime w) capability \<in> ?topics
              \<and> (\<exists>patterns.
                    map_of capability_patterns (str_lower (runtime w) capability) = Some patterns
                    \<and> (\<exists>tool_name. KStr tool_name \<in> fst ` set (tool_dicts h (available_tools r))
                          \<and> (\<exists>pattern \<in> set patterns.
                                sublist pattern (str_lower (runtime w) tool_name)))))
           \<or> (\<exists>tool_name. KStr tool_name \<in> fst ` set (tool_dicts h (available_tools r))
                  \<and> sublist (str_lower (runtime w) capability) (str_lower (runtime w) tool_name)))"
    unfolding has_capability_sets [OF assms] using known by auto
  have rows:
    "map_of capability_patterns ''weather''
        = Some [''forecast'', ''weather'', ''alerts'', ''temperature'', ''climate'']"
    "map_of capability_patterns ''math''
        = Some [''add'', ''sub'', ''multiply'', ''calculate'', ''solve'', ''equation'']"
    "map_of capability_patterns ''search'' = Some [''search'', ''find'', ''lookup'']"
    "map_of capability_patterns ''filesystem''
        = Some [''list_files'', ''read_file'', ''write_file'', ''file'']"
    "map_of capability_patterns ''database'' = Some [''query'', ''table'', ''sql'', ''database'']"
    "map_of capability_patterns ''usda'' = Some [''food'', ''nutrition'', ''usda'']"
    "map_of capability_patterns ''food'' = Some [''food'', ''nutrition'', ''usda'']"
    "map_of capability_patterns ''nutrition'' = Some [''food'', ''nutrition'', ''usda'']"
    by (simp_all add: capability_patterns_def)
  have same: "has_capability w (h, r) capability = has_capability w (h', r') capability'"
    if "(\<forall>k \<in> fst ` set (tool_dicts h' (available_tools r')). \<exists>s. k = KStr s)
        \<and> str_lower (runtime w) capability = str_lower (runtime w) capability'
        \<and> str_lower (runtime w) ` {s. KStr s \<in> fst ` set (tool_dicts h (available_tools r))}
            = str_lower (runtime w) ` {s. KStr s \<in> fst ` set (tool_dicts h' (available_tools r'))}"
  proof -
    from that have keys': "\<forall>k \<in> fst ` set (tool_dicts h' (available_tools r')). \<exists>s. k = KStr s"
      by blast
    show ?thesis
      unfolding has_capability_sets [OF assms] has_capability_sets [OF keys']
      using that by simp
  qed
  from main known_topics rows same show ?thesis
    by (intro conjI impI)
qed

text \<open>On the catalog of the three servers (\<open>add\<close>, \<open>sub\<close>, \<open>list_files\<close>): a known topic in
  capitals, a topic that only occurs inside a tool name, and a known topic without a tool.\<close>

theorem has_capability_characterisation_witness:
  "has_capability ex_world ex_state ''MATH'' = Inr True
   \<and> has_capability ex_world ex_state ''Files'' = Inr True
   \<and> has_capability ex_world ex_state ''weather'' = Inr False
   \<and> str_lower (runtime ex_world) ''math'' = str_lower (runtime ex_world) ''MATH''
   \<and> has_capability ex_world ex_state ''math'' = has_capability ex_world ex_state ''MATH''"
proof -
  let ?h = "fst ex_state" and ?r = "snd ex_state"
  have names: "fst ` set (tool_dicts ?h (available_tools ?r))
                 = {KStr ''add'', KStr ''sub'', KStr ''list_files''}"
    by (simp add: ex_state_eval)
  have strings: "\<forall>k \<in> fst ` set (tool_dicts ?h (available_tools ?r)). \<exists>s. k = KStr s"
    unfolding names by simp
  have low_ascii: "lower_ascii ''MATH'' = ''math''" "lower_ascii ''Files'' = ''files''"
      "lower_ascii ''weather'' = ''weather''" "lower_ascii ''math'' = ''math''"
      "lower_ascii ''add'' = ''add''" "lower_ascii ''sub'' = ''sub''"
      "lower_ascii ''list_files'' = ''list_files''"
    by code_simp+
  have rt: "str_lower (runtime ex_world) = lower_ascii"
    by (simp add: ex_world_def ex_runtime_def)
  note ev = names rt low_ascii capability_patterns_def str_contains_sublist [symmetric]
    conj_disj_distribR ex_disj_distrib
  note T = has_capability_characterisation [OF strings, where w = ex_world and h' = ?h and r' = ?r]
  have 1: "has_capability ex_world (?h, ?r) ''MATH'' = Inr True"
    using T [where capability = "''MATH''", THEN conjunct1] by (simp add: ev)
  have 2: "has_capability ex_world (?h, ?r) ''Files'' = Inr True"
    using T [where capability = "''Files''", THEN conjunct1] by (simp add: ev)
  have 3: "has_capability ex_world (?h, ?r) ''weather'' = Inr False"
    using T [where capability = "''weather''", THEN conjunct1] by (simp add: ev)
  have 4: "str_lower (runtime ex_world) ''math'' = str_lower (runtime ex_world) ''MATH''"
    by (simp add: rt low_ascii)
  have "(\<forall>k \<in> fst ` set (tool_dicts ?h (available_tools ?r)). \<exists>s. k = KStr s)
        \<and> str_lower (runtime ex_world) ''math'' = str_lower (runtime ex_world) ''MATH''
        \<and> str_lower (runtime ex_world) ` {s. KStr s \<in> fst ` set (tool_dicts ?h (available_tools ?r))}
            = str_lower (runtime ex_world) ` {s. KStr s \<in> fst ` set (tool_dicts ?h (available_tools ?r))}
        \<longrightarrow> has_capability ex_world (?h, ?r) ''math'' = has_capability ex_world (?h, ?r) ''MATH''"
    using T [where capability = "''math''" and capability' = "''MATH''"] by (elim conjE)
  with strings 4
  have 5: "has_capability ex_world (?h, ?r) ''math'' = has_capability ex_world (?h, ?r) ''MATH''"
    by blast
  from 1 2 3 4 5 show ?thesis by simp
qed

lemma ex_numbered_catalogs:
  "fst (attempt ex_world_numbered (''five_first'', server_config ''five_first'' ''python''))"
  "fst (attempt ex_world_numbered (''add_first'', server_config ''add_first'' ''python''))"
  "map fst (tool_dicts (fst ex_state_five_first) (available_tools (snd ex_state_five_first)))
     = [KInt 5, KStr ''add'']"
  "map fst (tool_dicts (fst ex_state_add_first) (available_tools (snd ex_state_add_first)))
     = [KStr ''add'', KInt 5]"
  by (simp_all add: attempt_def ex_state_five_first_def ex_state_add_first_def
      ex_world_numbered_def numbered_entry_def initialize.simps ex_defs model_defs Let_def)

text \<open>The registry after \<^verbatim>\<open>initialize\<close> on a server that names its tools \<open>5\<close> and \<open>add\<close>:
  both connections succeed and both catalogs hold the same two names.  Asked for \<open>math\<close>,
  the search meets the number first in one catalog and raises, and meets \<open>add\<close> first in the
  other and returns true.\<close>

theorem has_capability_counterexample:
  "has_capability ex_world_numbered ex_state_five_first ''math'' = Inl AttributeError
   \<and> has_capability ex_world_numbered ex_state_add_first ''math'' = Inr True"
  by (simp add: ex_state_five_first_def ex_state_add_first_def ex_world_numbered_def
      numbered_entry_def initialize.simps ex_defs model_defs ex_runtime_def Let_def
      capability_patterns_def lower_ascii_def lower_ascii_char_def)

text \<open>Lowercasing is the runtime's: with one that knows the accented capitals, the topic
  spelled as the capital E with an acute accent is found in the tool \<open>e_tool\<close> spelled with
  the small accented letter.\<close>

lemma has_capability_accented:
  "has_capability ex_world_latin1 ex_state_latin1 [CHR 0xC9] = Inr True"
proof -
  have low: "lower_latin1_char (CHR 0xC9) = CHR 0xE9" "lower_latin1_char (CHR 0xE9) = CHR 0xE9"
      "lower_latin1_char (CHR ''_'') = CHR ''_''" "lower_latin1_char (CHR ''t'') = CHR ''t''"
      "lower_latin1_char (CHR ''o'') = CHR ''o''" "lower_latin1_char (CHR ''l'') = CHR ''l''"
    by code_simp+
  show ?thesis
    by (simp add: ex_state_latin1_def ex_world_latin1_def initialize.simps ex_defs model_defs
        ex_runtime_def Let_def capability_patterns_def low)
qed
section \<open>Export and import of the configuration\<close>

lemma strs_of_strings: "strs_of (map JStr xs) = Some xs"
  by (induction xs) simp_all

lemma str_items_of_strings: "str_items_of (map (\<lambda>(k, v). (k, JStr v)) e) = Some e"
  by (induction e) auto

lemma transport_round_trip: "transport_of_value (JStr (transport_value t)) = Inr t"
  by (cases t) (simp_all add: transport_of_value_def)

lemma as_opt_str_round_trip: "as_opt_str (opt_str s) = Some s"
  by (cases s) (simp_all add: opt_str_def)

lemma from_dict_to_dict: "from_dict (to_dict s) = Some (Inr s)"
  by (simp add: from_dict_def read_fields_def to_dict_def has_key_def py_get_def
      py_get_default_def field_names_def transport_round_trip strs_of_strings
      str_items_of_strings as_opt_str_round_trip)

lemma import_servers_exported:
  assumes "distinct (map fst xs)" "set (map fst xs) \<inter> set (map fst acc) = {}"
  shows "import_servers (map (\<lambda>(server_name, server). (server_name, to_dict server)) xs) acc
           = Some (Inr (acc @ xs))"
  using assms
proof (induction xs arbitrary: acc)
  case Nil
  then show ?case by simp
next
  case (Cons x xs)
  obtain k s where x: "x = (k, s)" by (cases x)
  have new: "k \<notin> set (map fst acc)"
    using Cons.prems(2) by (auto simp: x)
  have set_new: "dict_set acc k s = acc @ [(k, s)]"
    using new by (induction acc) auto
  have "set (map fst xs) \<inter> set (map fst (acc @ [(k, s)])) = {}"
    using Cons.prems by (auto simp: x)
  then show ?case
    using Cons.IH [of "acc @ [(k, s)]"] Cons.prems(1)
    by (simp add: x from_dict_to_dict set_new)
qed

text \<open>The text format of the scenarios is read back as written.\<close>

lemma read_nat_write_nat: "read_nat (write_nat n @ r) = Some (n, r)"
  by (induction n) (simp_all add: write_nat_def)

lemma read_int_write_int: "read_int (write_int i @ r) = Some (i, r)"
  by (simp add: write_int_def read_nat_write_nat)

lemma read_str_write_str: "read_str (write_str s @ r) = Some (s, r)"
  by (simp add: read_str_def write_str_def read_nat_write_nat)

lemma write_nat_head: "\<exists>c t. write_nat n = c # t \<and> c \<noteq> CHR ''e''"
  by (cases n) (simp_all add: write_nat_def)

lemma write_str_head: "\<exists>c t. write_str s = c # t \<and> c \<noteq> CHR ''e''"
  using write_nat_head [of "length s"] by (auto simp: write_str_def)

lemma write_json_head: "\<exists>c t. write_json v = c # t \<and> c \<noteq> CHR ''e''"
  by (cases v) simp_all

lemma read_items_write:
  assumes "\<And>x n r. x \<in> set xs \<Longrightarrow> length (write_json x) < n
             \<Longrightarrow> read_json n (write_json x @ r) = Some (x, r)"
    and "length (concat (map write_json xs)) + 1 < n"
  shows "read_items n (concat (map write_json xs) @ CHR ''e'' # r) = Some (xs, r)"
  using assms
proof (induction xs arbitrary: n)
  case Nil
  then obtain m where "n = Suc m" by (cases n) auto
  then show ?case by simp
next
  case (Cons x xs)
  obtain m where n: "n = Suc m" using Cons.prems(2) by (cases n) auto
  obtain c t where head: "write_json x = c # t" "c \<noteq> CHR ''e''"
    using write_json_head by blast
  have pos: "0 < length (write_json x)" using head by simp
  have one: "read_json m (write_json x @ concat (map write_json xs) @ CHR ''e'' # r)
               = Some (x, concat (map write_json xs) @ CHR ''e'' # r)"
    using Cons.prems(2) n by (intro Cons.prems(1)) auto
  have budget: "length (concat (map write_json xs)) + 1 < m"
    using Cons.prems(2) n pos by (simp del: length_greater_0_conv)
  have rest: "read_items m (concat (map write_json xs) @ CHR ''e'' # r) = Some (xs, r)"
    using Cons.prems(1) budget by (intro Cons.IH) auto
  show ?case
    using one rest head by (simp add: n)
qed

lemma read_fields_write:
  assumes "\<And>kv n r. kv \<in> set kvs \<Longrightarrow> length (write_json (snd kv)) < n
             \<Longrightarrow> read_json n (write_json (snd kv) @ r) = Some (snd kv, r)"
    and "length (concat (map (\<lambda>kv. write_str (fst kv) @ write_json (snd kv)) kvs)) + 1 < n"
  shows "read_fields_text n (concat (map (\<lambda>kv. write_str (fst kv) @ write_json (snd kv)) kvs)
                               @ CHR ''e'' # r) = Some (kvs, r)"
  using assms
proof (induction kvs arbitrary: n)
  case Nil
  then obtain m where "n = Suc m" by (cases n) auto
  then show ?case by simp
next
  case (Cons kv kvs)
  let ?tail = "concat (map (\<lambda>kv. write_str (fst kv) @ write_json (snd kv)) kvs)"
  obtain m where n: "n = Suc m" using Cons.prems(2) by (cases n) auto
  obtain c t where head: "write_str (fst kv) = c # t" "c \<noteq> CHR ''e''"
    using write_str_head by blast
  have pos: "0 < length (write_str (fst kv))" using head by simp
  have key: "read_str (c # t @ write_json (snd kv) @ ?tail @ CHR ''e'' # r)
               = Some (fst kv, write_json (snd kv) @ ?tail @ CHR ''e'' # r)"
    using read_str_write_str [of "fst kv" "write_json (snd kv) @ ?tail @ CHR ''e'' # r"] head
    by simp
  have one: "read_json m (write_json (snd kv) @ ?tail @ CHR ''e'' # r)
               = Some (snd kv, ?tail @ CHR ''e'' # r)"
    using Cons.prems(2) n by (intro Cons.prems(1)) auto
  have budget: "length ?tail + 1 < m"
    using Cons.prems(2) n pos by (simp del: length_greater_0_conv)
  have rest: "read_fields_text m (?tail @ CHR ''e'' # r) = Some (kvs, r)"
    using Cons.prems(1) budget by (intro Cons.IH) auto
  show ?case
    using key one rest head by (simp add: n)
qed

lemma read_json_write_json:
  "length (write_json v) < n \<Longrightarrow> read_json n (write_json v @ r) = Some (v, r)"
proof (induction v arbitrary: n r)
  case JNull
  then show ?case by (cases n) simp_all
next
  case (JBool b)
  then show ?case by (cases n) simp_all
next
  case (JInt i)
  then show ?case by (cases n) (simp_all add: read_int_write_int)
next
  case (JStr s)
  then show ?case by (cases n) (simp_all add: read_str_write_str)
next
  case (JArr xs)
  obtain m where n: "n = Suc m" using JArr.prems by (cases n) auto
  have "read_items m (concat (map write_json xs) @ CHR ''e'' # r) = Some (xs, r)"
    using JArr.prems n by (intro read_items_write JArr.IH) auto
  then show ?case by (simp add: n)
next
  case (JObj kvs)
  obtain m where n: "n = Suc m" using JObj.prems by (cases n) auto
  have each: "read_json k (write_json (snd kv) @ q) = Some (snd kv, q)"
    if "kv \<in> set kvs" "length (write_json (snd kv)) < k" for kv k q
  proof -
    have "snd kv \<in> Basic_BNFs.snds kv"
      by (cases kv) simp
    from JObj.IH [OF that(1) this that(2)] show ?thesis .
  qed
  have "read_fields_text m (concat (map (\<lambda>kv. write_str (fst kv) @ write_json (snd kv)) kvs)
                              @ CHR ''e'' # r) = Some (kvs, r)"
    using JObj.prems n by (intro read_fields_write each) auto
  then show ?case by (simp add: n)
qed

lemma read_text_write_json: "read_text (write_json v) = Some v"
  using read_json_write_json [of v "Suc (length (write_json v))" "[]"]
  by (simp add: read_text_def)

text \<open>
  C6.  On a runtime whose \<^verbatim>\<open>json.loads\<close> returns, for every value, the value that
  \<^verbatim>\<open>json.dumps\<close> was given, and for a configuration whose keys are distinct (it is a dict),
  importing the export of the configuration into any manager succeeds and leaves that manager
  with the same entries under the same keys in the same order: each has the name, command,
  args, env, transport, url, enabled flag and description it had.
\<close>

theorem export_import_round_trip:
  assumes "\<forall>v. loads rt (dumps_indent2 rt v) = Some v"
    and "distinct (map fst (servers cm))"
  shows "import_config rt (export_config rt cm) cm' = Some (True, cm'\<lparr>servers := servers cm\<rparr>)
       \<and> (\<forall>server. from_dict (to_dict server) = Some (Inr server))"
proof -
  have parsed: "loads rt (export_config rt cm) = Some (export_document cm)"
    using assms(1) by (simp add: export_config_def)
  have "import_servers
          (map (\<lambda>(server_name, server). (server_name, to_dict server)) (servers cm)) []
        = Some (Inr (servers cm))"
    using import_servers_exported [OF assms(2), of "[]"] by simp
  then show ?thesis
    using parsed
    by (simp add: import_config_def export_document_def py_get_default_def from_dict_to_dict)
qed

text \<open>The three servers, exported with the text format of the scenarios and imported into an
  empty manager.\<close>

theorem export_import_round_trip_witness:
  "distinct (map fst (servers three_servers))
   \<and> loads ex_runtime (export_config ex_runtime three_servers)
        = Some (export_document three_servers)
   \<and> import_config ex_runtime (export_config ex_runtime three_servers) \<lparr>servers = []\<rparr>
        = Some (True, three_servers)"
proof -
  have 1: "\<forall>v. loads ex_runtime (dumps_indent2 ex_runtime v) = Some v"
    by (simp add: ex_runtime_def read_text_write_json)
  have 2: "distinct (map fst (servers three_servers))"
    by (simp add: three_servers_def add_server_def server_config_def)
  have 3: "loads ex_runtime (export_config ex_runtime three_servers)
             = Some (export_document three_servers)"
    using 1 by (simp add: export_config_def)
  from export_import_round_trip [OF 1 2, of "\<lparr>servers = []\<rparr>"]
  have "import_config ex_runtime (export_config ex_runtime three_servers) \<lparr>servers = []\<rparr>
          = Some (True, \<lparr>servers = servers three_servers\<rparr>)"
    by simp
  with 2 3 show ?thesis by simp
qed
section \<open>Routing when servers offer the same tool\<close>

lemma aggregate_last_writer:
  "map_of (fst (aggregate (conns @ [(k, c)]) catalogs)) n
     = (if conn_initialized c
        then (case map_of (rev (tools c)) n of
                Some t \<Rightarrow> Some t
              | None \<Rightarrow> map_of (fst (aggregate conns catalogs)) n)
        else map_of (fst (aggregate conns catalogs)) n)"
  unfolding aggregate_def by (simp add: split_beta map_of_dict_update map_add_def)

text \<open>
  C4.  The catalog holds one entry per tool name, from the initialized connection
  aggregated last; \<open>execute_tool\<close> on a colliding name should route to that connection.
  On the defaults of the repository it does not.  The key \<open>math_tool\<close> holds the
  configuration named \<open>My Math Tool\<close>; both servers here offer \<open>add\<close>.  The entry of the
  catalog comes from the connection under \<open>math_tool\<close>, aggregated last, which is initialized
  and knows \<open>add\<close>; but the entry names its server \<open>My Math Tool\<close>, the connection map has
  no such key, and the call fails as not connected.
\<close>

theorem execute_tool_misroutes_on_default_keys:
  "map fst (server_connections (snd ex_state_default)) = [''weather'', ''math_tool'']
   \<and> map_of (server_connections (snd ex_state_default)) ''math_tool''
        = Some (ex_math_connection ''My Math Tool'')
   \<and> conn_initialized (ex_math_connection ''My Math Tool'')
   \<and> has_key (tools (ex_math_connection ''My Math Tool'')) (KStr ''add'')
   \<and> has_key (tools (ex_math_connection ''weather'')) (KStr ''add'')
   \<and> map_of (tool_dicts (fst ex_state_default) (available_tools (snd ex_state_default))) (KStr ''add'')
        = map_of (tools (ex_math_connection ''My Math Tool'')) (KStr ''add'')
   \<and> fst (call_tool (runtime ex_world) ''u-call'' ''add'' (JObj [(''a'', JInt 1), (''b'', JInt 3)])
             (ex_math_connection ''My Math Tool'')) = (True, ''4'')
   \<and> execute_tool ex_world ''u-call'' ex_state_default ''add'' (JObj [(''a'', JInt 1), (''b'', JInt 3)])
        = ((False, ''Server My Math Tool not connected''), snd ex_state_default)"
proof -
  have call: "fst (call_tool (runtime ex_world) ''u-call'' ''add''
                     (JObj [(''a'', JInt 1), (''b'', JInt 3)])
                     (ex_math_connection ''My Math Tool'')) = (True, ''4'')"
    by (simp add: ex_defs model_defs)
  obtain h r where s: "ex_state_default = (h, r)"
    by (cases ex_state_default)
  have catalog: "tool_dicts h (available_tools r)
     = [(KStr ''add'', ex_tool ''add'' ''Add two numbers'' ''My Math Tool''),
        (KStr ''sub'', ex_tool ''sub'' ''Subtract two numbers'' ''My Math Tool'')]"
    using ex_state_default_eval(1) by (simp add: s)
  have conns: "server_connections r
     = [(''weather'', ex_math_connection ''weather''),
        (''math_tool'', ex_math_connection ''My Math Tool'')]"
    using ex_state_default_eval(2) by (simp add: s)
  have route: "execute_tool ex_world ''u-call'' (h, r) ''add''
                  (JObj [(''a'', JInt 1), (''b'', JInt 3)])
        = ((False, ''Server My Math Tool not connected''), r)"
    by (simp add: catalog conns ex_tool_def)
  show ?thesis
    unfolding s
    using call route
    by (simp add: catalog conns ex_math_connection_def has_key_def)
qed

text \<open>The same run, read off: the connection that owns \<open>add\<close> succeeds when called, the
  registry fails.\<close>

theorem execute_tool_misroutes_on_default_keys_witness:
  "fst (fst (call_tool (runtime ex_world) ''u-call'' ''add'' (JObj [(''a'', JInt 1), (''b'', JInt 3)])
               (ex_math_connection ''My Math Tool'')))
   \<and> \<not> fst (fst (execute_tool ex_world ''u-call'' ex_state_default ''add''
                    (JObj [(''a'', JInt 1), (''b'', JInt 3)])))"
  using execute_tool_misroutes_on_default_keys by simp

end
